theory Spec2Isabelle
  imports Complex_Main
begin

section \<open>The HTTP wrapper of the native server (http-wrapper.js)\<close>

text \<open>
  The wrapper is one Node.js module: four module-level variables (\<open>mcpClient\<close>,
  \<open>isInitializing\<close>, \<open>isConnected\<close>, \<open>reconnectAttempts\<close>), three async functions
  (\<open>initializeMcpClient\<close>, the health-check callback of \<open>setupConnectionMonitoring\<close>,
  \<open>sendToMcpServer\<close>) and the request handler of \<open>http.createServer\<close>.

  JavaScript runs one callback at a time. An async function runs without interruption
  up to its next \<open>await\<close> of an operation of the MCP client (\<open>close\<close>, \<open>connect\<close>,
  \<open>callTool\<close>, \<open>sendRequest\<close>); there it is suspended until that operation settles.
  The embedding follows this: every stretch of code between two suspension points is
  one function on the state, a suspended async function is a \<open>task\<close> that names
  the code still to run, and the event loop is \<open>step\<close>, which takes one event (a
  request, a timer, a settled operation) and runs the code it wakes up.
  An \<open>await\<close> of \<open>initializeMcpClient()\<close> when that call returned without
  suspending continues in the same step (its continuation is a microtask, which runs
  before any other event).

  Not modelled: console output, response headers, the \<open>SIGINT\<close>/\<open>SIGTERM\<close>
  handlers (they end the process) and the \<open>uncaughtException\<close> hooks.
\<close>

subsection \<open>Values\<close>

text \<open>
  What \<open>JSON.parse\<close> returns. A number is the value of the double it was read as.
  An object is its members in the order of the text.
\<close>

datatype json =
    JNull
  | JBool bool
  | JNum rat
  | JStr string
  | JArr "json list"
  | JObj "(string \<times> json) list"

text \<open>How a promise settles: resolved with a value, or rejected with an \<open>Error\<close>
  whose \<open>message\<close> is the string.\<close>

datatype outcome = Resolved json | Rejected string

type_synonym handle = nat
type_synonym timer_id = nat
type_synonym req_id = nat

text \<open>The message the handler builds (lines 283-293):
  \<open>{jsonrpc, id, method, params: {name, arguments}}\<close>.\<close>

record tool_params =
  tool_name :: string
  arguments :: json

record mcp_message =
  jsonrpc :: string
  msg_id :: json
  msg_method :: string
  params :: tool_params

text \<open>What is sent to the MCP client object: the calls of the source on \<open>mcpClient\<close>.
  \<open>CallTool n a\<close> is \<open>callTool({name: n, arguments: a}, undefined, {timeout: 30000})\<close>,
  \<open>HealthPing\<close> is the \<open>sendRequest\<close> of line 152.\<close>

datatype rpc =
    Connect
  | Close
  | CallTool string json
  | SendRequest mcp_message
  | HealthPing

text \<open>The body of a response, as the object given to \<open>JSON.stringify\<close>: a list of
  keys with their values. \<open>Interp p v\<close> is the template literal \<open>`p${v}`\<close>.\<close>

datatype field =
    Str string
  | Bool bool
  | Num nat
  | Val json
  | Msg mcp_message
  | Interp string json
  | Obj "(string \<times> field) list"
  | Arr "field list"

type_synonym body = "(string \<times> field) list option"

record request =
  req_method :: string
  req_pathname :: string
  req_body :: "json option"
  req_time :: string

text \<open>\<open>req_body\<close> is \<open>JSON.parse(body)\<close> at the request's \<open>end\<close> event: \<open>None\<close> when
  it throws. \<open>req_time\<close> is \<open>new Date().toISOString()\<close>.\<close>

subsection \<open>Suspended code\<close>

text \<open>
  The caller of \<open>sendToMcpServer\<close> is the handler (line 299), which closes over
  \<open>res\<close>, \<open>targetUrl\<close> and \<open>mcpMessage\<close>.
  The callers of \<open>initializeMcpClient\<close> are the timer callbacks (lines 127, 162, 379),
  which do nothing with the result, and the catch block of \<open>sendToMcpServer\<close>
  (line 197), which goes on with \<open>message\<close>, \<open>error.message\<close> and its own caller.
\<close>

datatype send_k = HttpK req_id json mcp_message

datatype init_k = FireAndForget | RetrySend mcp_message string send_k

datatype task =
    AwaitClose handle init_k
  | AwaitConnect init_k
  | AwaitPing timer_id
  | AwaitCall mcp_message send_k

datatype timeout = Startup | Reconnect

record sys =
  mcpClient :: "handle option"
  isInitializing :: bool
  isConnected :: bool
  reconnectAttempts :: nat
  tasks :: "task list"
  timeouts :: "timeout list"
  intervals :: "timer_id list"
  clients :: "handle list"
  nextClient :: handle
  nextTimer :: timer_id
  calls :: "(handle \<times> rpc) list"
  responses :: "(req_id \<times> nat \<times> body) list"

text \<open>
  The first four fields are the variables of lines 60-63. The others are the
  environment: \<open>tasks\<close> the suspended async functions, \<open>timeouts\<close> the pending
  \<open>setTimeout\<close> callbacks, \<open>intervals\<close> the \<open>setInterval\<close> timers not yet cleared,
  \<open>clients\<close> the \<open>Client\<close> objects created whose \<open>close()\<close> has not yet settled,
  \<open>calls\<close> every operation invoked on a client, in order, and \<open>responses\<close> what was
  written to each request (status and body).
\<close>

definition MAX_RECONNECT_ATTEMPTS :: nat where
  "MAX_RECONNECT_ATTEMPTS = 5"

definition MCP_SERVER_URL :: string where
  "MCP_SERVER_URL = ''http://127.0.0.1:12306/mcp''"

text \<open>The state when \<open>server.listen\<close> has called back (lines 60-63, 378).\<close>

definition initial :: sys where
  "initial = \<lparr> mcpClient = None, isInitializing = False, isConnected = False,
     reconnectAttempts = 0, tasks = [], timeouts = [Startup], intervals = [],
     clients = [], nextClient = 0, nextTimer = 0, calls = [], responses = [] \<rparr>"

subsection \<open>JavaScript primitives the code uses\<close>

text \<open>\<open>s.includes(pat)\<close>.\<close>

fun str_includes :: "string \<Rightarrow> string \<Rightarrow> bool" where
  "str_includes [] pat = (pat = [])"
| "str_includes (c # cs) pat = (take (length pat) (c # cs) = pat \<or> str_includes cs pat)"

text \<open>\<open>const { url: targetUrl } = v\<close> (line 256): destructuring \<open>null\<close> throws a
  TypeError; any other value is read at the property \<open>url\<close>, which only an object can
  have (the last member of that name, as \<open>JSON.parse\<close> keeps it). \<open>None\<close> is
  \<open>undefined\<close>.\<close>

fun destructure_url :: "json \<Rightarrow> string + json option" where
  "destructure_url JNull = Inl ''TypeError''"
| "destructure_url (JObj kvs) = Inr (map_of (rev kvs) ''url'')"
| "destructure_url _ = Inr None"

text \<open>\<open>!v\<close> is false exactly for these.\<close>

fun truthy :: "json option \<Rightarrow> bool" where
  "truthy None = False"
| "truthy (Some JNull) = False"
| "truthy (Some (JBool b)) = b"
| "truthy (Some (JNum r)) = (r \<noteq> 0)"
| "truthy (Some (JStr s)) = (s \<noteq> [])"
| "truthy (Some (JArr _)) = True"
| "truthy (Some (JObj _)) = True"

text \<open>\<open>`${v}`\<close> (line 264) throws a TypeError for these. A value made by
  \<open>JSON.parse\<close> has no function among its members, so an object with a member named
  \<open>toString\<close> hides \<open>Object.prototype.toString\<close> behind a value that cannot be
  called, and \<open>valueOf\<close> gives back the object: no primitive is found. An array is
  joined, which converts each element but \<open>null\<close> in the same way. Strings,
  numbers, booleans, \<open>null\<close> and objects without such a member convert.\<close>

fun to_string_throws :: "json \<Rightarrow> bool" where
  "to_string_throws (JObj kvs) = (map_of kvs ''toString'' \<noteq> None)"
| "to_string_throws (JArr vs) = list_ex to_string_throws vs"
| "to_string_throws _ = False"

subsection \<open>Helpers of the embedding\<close>

definition respond :: "req_id \<Rightarrow> nat \<Rightarrow> body \<Rightarrow> sys \<Rightarrow> sys" where
  "respond rid status b s = s\<lparr> responses := responses s @ [(rid, status, b)] \<rparr>"

text \<open>Invoke \<open>op\<close> on client \<open>h\<close> and suspend as \<open>t\<close>.\<close>

definition await :: "handle \<Rightarrow> rpc \<Rightarrow> task \<Rightarrow> sys \<Rightarrow> sys" where
  "await h op t s = s\<lparr> calls := calls s @ [(h, op)], tasks := tasks s @ [t] \<rparr>"

definition drop_task :: "nat \<Rightarrow> sys \<Rightarrow> sys" where
  "drop_task i s = s\<lparr> tasks := take i (tasks s) @ drop (Suc i) (tasks s) \<rparr>"

definition drop_timeout :: "nat \<Rightarrow> sys \<Rightarrow> sys" where
  "drop_timeout i s = s\<lparr> timeouts := take i (timeouts s) @ drop (Suc i) (timeouts s) \<rparr>"

definition clearInterval :: "timer_id \<Rightarrow> sys \<Rightarrow> sys" where
  "clearInterval t s = s\<lparr> intervals := removeAll t (intervals s) \<rparr>"

subsection \<open>The handler's continuation after sendToMcpServer (lines 299-320)\<close>

definition send_return :: "send_k \<Rightarrow> outcome \<Rightarrow> sys \<Rightarrow> sys" where
  "send_return k out s =
     (case k of HttpK rid targetUrl mcpMessage \<Rightarrow>
        (case out of
           Resolved response \<Rightarrow>
             respond rid 200 (Some
               [(''success'', Bool True),
                (''message'', Interp ''Cookies retrieved from '' targetUrl),
                (''response'', Val response),
                (''request'', Msg mcpMessage)]) s
         | Rejected message \<Rightarrow>
             respond rid 500 (Some
               [(''error'', Str ''Failed to communicate with MCP server''),
                (''details'', Str message),
                (''suggestion'', Str (''Make sure the MCP server is running at '' @ MCP_SERVER_URL))]) s))"

subsection \<open>sendToMcpServer, up to its await (lines 168-191)\<close>

text \<open>The result is \<open>Some out\<close> when the promise settled as \<open>out\<close> without
  suspending (the throw of line 170), \<open>None\<close> when the function is suspended at
  \<open>callTool\<close> or \<open>sendRequest\<close>.\<close>

definition sendToMcpServer :: "mcp_message \<Rightarrow> send_k \<Rightarrow> sys \<Rightarrow> outcome option \<times> sys" where
  "sendToMcpServer message k s =
     (case mcpClient s of
        None \<Rightarrow> (Some (Rejected ''MCP client not initialized or not connected''), s)
      | Some h \<Rightarrow>
          if \<not> isConnected s
          then (Some (Rejected ''MCP client not initialized or not connected''), s)
          else if msg_method message = ''tools/call''
          then (None, await h (CallTool (tool_name (params message)) (arguments (params message)))
                        (AwaitCall message k) s)
          else (None, await h (SendRequest message) (AwaitCall message k) s))"

text \<open>A call of \<open>sendToMcpServer\<close> with what its caller does next.\<close>

definition call_send :: "mcp_message \<Rightarrow> send_k \<Rightarrow> sys \<Rightarrow> sys" where
  "call_send message k s =
     (case sendToMcpServer message k s of
        (Some out, s') \<Rightarrow> send_return k out s'
      | (None, s') \<Rightarrow> s')"

subsection \<open>The callers of initializeMcpClient, after it returned\<close>

text \<open>Lines 198-203 for the catch block of \<open>sendToMcpServer\<close>: the retry is
  \<open>return await sendToMcpServer(message)\<close>, so what the retry returns or throws goes
  to the caller of the first call as it is.\<close>

definition init_return :: "init_k \<Rightarrow> bool \<Rightarrow> sys \<Rightarrow> sys" where
  "init_return k r s =
     (case k of
        FireAndForget \<Rightarrow> s
      | RetrySend message error k' \<Rightarrow>
          if isConnected s \<and> mcpClient s \<noteq> None
          then call_send message k' s
          else send_return k' (Rejected (''MCP client error: '' @ error)) s)"

subsection \<open>setupConnectionMonitoring (lines 140-165)\<close>

definition setupConnectionMonitoring :: "sys \<Rightarrow> sys" where
  "setupConnectionMonitoring s =
     (if mcpClient s = None then s
      else s\<lparr> intervals := intervals s @ [nextTimer s], nextTimer := Suc (nextTimer s) \<rparr>)"

subsection \<open>initializeMcpClient (lines 68-137)\<close>

text \<open>Lines 95-106: a new client, then \<open>await mcpClient.connect(transport)\<close>.\<close>

definition init_connect :: "init_k \<Rightarrow> sys \<Rightarrow> sys" where
  "init_connect k s =
     (let h = nextClient s in
      await h Connect (AwaitConnect k)
        (s\<lparr> mcpClient := Some h, clients := clients s @ [h], nextClient := Suc h \<rparr>))"

text \<open>From the call to the first await. The result is \<open>Some r\<close> when the function
  returned \<open>r\<close> without suspending, \<open>None\<close> when it is suspended.\<close>

definition initializeMcpClient :: "init_k \<Rightarrow> sys \<Rightarrow> bool option \<times> sys" where
  "initializeMcpClient k s =
     (if isInitializing s then (Some False, s)
      else if isConnected s \<and> mcpClient s \<noteq> None then (Some True, s)
      else
        (let s1 = s\<lparr> isInitializing := True \<rparr> in
         case mcpClient s1 of
           Some h \<Rightarrow> (None, await h Close (AwaitClose h k) s1)
         | None \<Rightarrow> (None, init_connect k s1)))"

text \<open>After \<open>await mcpClient.close()\<close> (lines 89-93, then on to the connect): a
  rejection is caught and only logged.\<close>

definition init_after_close :: "handle \<Rightarrow> init_k \<Rightarrow> outcome \<Rightarrow> sys \<Rightarrow> sys" where
  "init_after_close h k out s =
     init_connect k (s\<lparr> mcpClient := None, clients := removeAll h (clients s) \<rparr>)"

text \<open>After \<open>await mcpClient.connect(transport)\<close> (lines 108-136), with the value
  returned.\<close>

definition init_after_connect :: "outcome \<Rightarrow> sys \<Rightarrow> bool \<times> sys" where
  "init_after_connect out s =
     (case out of
        Resolved _ \<Rightarrow>
          (True, (setupConnectionMonitoring (s\<lparr> isConnected := True, reconnectAttempts := 0 \<rparr>))
                   \<lparr> isInitializing := False \<rparr>)
      | Rejected _ \<Rightarrow>
          (let s1 = s\<lparr> isConnected := False \<rparr>;
               s2 = (if reconnectAttempts s1 < MAX_RECONNECT_ATTEMPTS
                     then s1\<lparr> timeouts := timeouts s1 @ [Reconnect] \<rparr>
                     else s1)
           in (False, s2\<lparr> isInitializing := False \<rparr>)))"

text \<open>A call of \<open>initializeMcpClient\<close> with what its caller does next.\<close>

definition call_init :: "init_k \<Rightarrow> sys \<Rightarrow> sys" where
  "call_init k s =
     (case initializeMcpClient k s of
        (Some r, s') \<Rightarrow> init_return k r s'
      | (None, s') \<Rightarrow> s')"

text \<open>The callback of line 125.\<close>

definition reconnect_timeout :: "sys \<Rightarrow> sys" where
  "reconnect_timeout s = call_init FireAndForget (s\<lparr> reconnectAttempts := reconnectAttempts s + 1 \<rparr>)"

subsection \<open>The health check (lines 144-164)\<close>

definition health_tick :: "timer_id \<Rightarrow> sys \<Rightarrow> sys" where
  "health_tick t s =
     (case mcpClient s of
        None \<Rightarrow> clearInterval t s
      | Some h \<Rightarrow>
          if \<not> isConnected s then clearInterval t s
          else await h HealthPing (AwaitPing t) s)"

definition health_after_ping :: "timer_id \<Rightarrow> outcome \<Rightarrow> sys \<Rightarrow> sys" where
  "health_after_ping t out s =
     (case out of
        Resolved _ \<Rightarrow> s
      | Rejected _ \<Rightarrow> call_init FireAndForget (clearInterval t (s\<lparr> isConnected := False \<rparr>)))"

subsection \<open>sendToMcpServer after its await (lines 186-204)\<close>

definition connection_error :: "string \<Rightarrow> bool" where
  "connection_error message = (str_includes message ''connection'' \<or> str_includes message ''closed'')"

definition send_after_call :: "mcp_message \<Rightarrow> send_k \<Rightarrow> outcome \<Rightarrow> sys \<Rightarrow> sys" where
  "send_after_call message k out s =
     (case out of
        Resolved result \<Rightarrow> send_return k (Resolved result) s
      | Rejected error \<Rightarrow>
          if connection_error error
          then call_init (RetrySend message error k) (s\<lparr> isConnected := False \<rparr>)
          else send_return k (Rejected (''MCP client error: '' @ error)) s)"

subsection \<open>The request handler (lines 208-364)\<close>

definition connection_info :: "sys \<Rightarrow> (string \<times> field) list" where
  "connection_info s =
     [(''isConnected'', Bool (isConnected s)),
      (''isInitializing'', Bool (isInitializing s)),
      (''reconnectAttempts'', Num (reconnectAttempts s))]"

text \<open>Lines 283-293.\<close>

definition mcpMessage :: "json \<Rightarrow> mcp_message" where
  "mcpMessage targetUrl =
     \<lparr> jsonrpc = ''2.0'', msg_id = JNum 1, msg_method = ''tools/call'',
       params = \<lparr> tool_name = ''chrome_get_cookie'',
                  arguments = JObj [(''url'', targetUrl)] \<rparr> \<rparr>"

text \<open>The \<open>end\<close> callback of a POST to \<open>/tools/get-cookie\<close> (lines 254-325).
  Everything up to the call of \<open>sendToMcpServer\<close> is inside the \<open>try\<close> of line 255,
  whose \<open>catch\<close> (line 321) answers 400: it takes the throw of \<open>JSON.parse\<close>, of
  the destructuring, and of the template literal of line 264, which is evaluated after
  the test of the url and before the test of the link.
  Where \<open>targetUrl\<close> is printed or put in the message it is truthy, so it is not
  \<open>undefined\<close>. The outer \<open>try\<close> of line 248 only registers the two callbacks.\<close>

definition get_cookie :: "req_id \<Rightarrow> json option \<Rightarrow> sys \<Rightarrow> sys" where
  "get_cookie rid parsed s =
     (case parsed of
        None \<Rightarrow> respond rid 400 (Some [(''error'', Str ''Invalid JSON in request body'')]) s
      | Some v \<Rightarrow>
          (case destructure_url v of
             Inl _ \<Rightarrow> respond rid 400 (Some [(''error'', Str ''Invalid JSON in request body'')]) s
           | Inr targetUrl \<Rightarrow>
               if \<not> truthy targetUrl
               then respond rid 400 (Some [(''error'', Str ''URL parameter is required'')]) s
               else if to_string_throws (the targetUrl)
               then respond rid 400 (Some [(''error'', Str ''Invalid JSON in request body'')]) s
               else if mcpClient s = None \<or> \<not> isConnected s
               then respond rid 503 (Some
                      [(''error'', Str ''MCP client not ready''),
                       (''message'', Str ''Please wait for MCP client initialization''),
                       (''status'', Obj (connection_info s))]) s
               else
                 call_send (mcpMessage (the targetUrl))
                   (HttpK rid (the targetUrl) (mcpMessage (the targetUrl))) s))"

definition handler :: "req_id \<Rightarrow> request \<Rightarrow> sys \<Rightarrow> sys" where
  "handler rid req s =
     (if req_method req = ''OPTIONS'' then respond rid 200 None s
      else if req_pathname req = ''/ping'' \<and> req_method req = ''GET''
      then respond rid 200 (Some
             [(''status'', Str ''ok''),
              (''timestamp'', Str (req_time req)),
              (''message'', Str ''HTTP Wrapper Server is running''),
              (''mcpServerUrl'', Str MCP_SERVER_URL),
              (''mcpClientReady'', Bool (mcpClient s \<noteq> None \<and> isConnected s)),
              (''connectionStatus'', Obj
                 [(''isConnected'', Bool (isConnected s)),
                  (''isInitializing'', Bool (isInitializing s)),
                  (''reconnectAttempts'', Num (reconnectAttempts s)),
                  (''maxReconnectAttempts'', Num MAX_RECONNECT_ATTEMPTS)]),
              (''note'', Str ''Connects directly to MCP server using MCP client'')]) s
      else if req_pathname req = ''/tools/get-cookie'' \<and> req_method req = ''POST''
      then get_cookie rid (req_body req) s
      else if req_pathname req = ''/tools'' \<and> req_method req = ''GET''
      then respond rid 200 (Some
             [(''tools'', Arr [Obj
                [(''name'', Str ''get-cookie''),
                 (''endpoint'', Str ''/tools/get-cookie''),
                 (''method'', Str ''POST''),
                 (''description'', Str ''Get cookies from a specified website''),
                 (''parameters'', Obj
                    [(''url'', Str ''string - URL of the website to get cookies from'')]),
                 (''note'', Str (''Connects directly to MCP server using MCP client at '' @ MCP_SERVER_URL)),
                 (''status'', Str (if mcpClient s \<noteq> None \<and> isConnected s then ''ready'' else ''initializing'')),
                 (''connectionInfo'', Obj (connection_info s))]])]) s
      else respond rid 404 (Some [(''error'', Str ''Not Found'')]) s)"

subsection \<open>The event loop\<close>

text \<open>
  \<open>Request rid req\<close>: request \<open>rid\<close> has arrived (for a POST, with its whole body).
  \<open>Tick t\<close>: interval \<open>t\<close> fires. \<open>Fire i\<close>: the \<open>i\<close>-th pending timeout fires.
  \<open>Settle i out\<close>: the operation the \<open>i\<close>-th task waits for settles as \<open>out\<close>.
  An event that cannot happen in a state (a cleared interval, no such timeout or
  task) leaves the state as it is.
\<close>

datatype event =
    Request req_id request
  | Tick timer_id
  | Fire nat
  | Settle nat outcome

definition resume :: "task \<Rightarrow> outcome \<Rightarrow> sys \<Rightarrow> sys" where
  "resume t out s =
     (case t of
        AwaitClose h k \<Rightarrow> init_after_close h k out s
      | AwaitConnect k \<Rightarrow> (case init_after_connect out s of (r, s') \<Rightarrow> init_return k r s')
      | AwaitPing tm \<Rightarrow> health_after_ping tm out s
      | AwaitCall message k \<Rightarrow> send_after_call message k out s)"

definition fire :: "timeout \<Rightarrow> sys \<Rightarrow> sys" where
  "fire t s = (case t of Startup \<Rightarrow> call_init FireAndForget s | Reconnect \<Rightarrow> reconnect_timeout s)"

definition step :: "event \<Rightarrow> sys \<Rightarrow> sys" where
  "step ev s =
     (case ev of
        Request rid req \<Rightarrow> handler rid req s
      | Tick t \<Rightarrow> if t \<in> set (intervals s) then health_tick t s else s
      | Fire i \<Rightarrow> if i < length (timeouts s) then fire (timeouts s ! i) (drop_timeout i s) else s
      | Settle i out \<Rightarrow> if i < length (tasks s) then resume (tasks s ! i) out (drop_task i s) else s)"

fun run :: "sys \<Rightarrow> event list \<Rightarrow> sys" where
  "run s [] = s"
| "run s (ev # evs) = run (step ev s) evs"

subsection \<open>Reading a run\<close>

text \<open>The tasks that are suspended inside \<open>initializeMcpClient\<close>.\<close>

fun is_init_task :: "task \<Rightarrow> bool" where
  "is_init_task (AwaitClose _ _) = True"
| "is_init_task (AwaitConnect _) = True"
| "is_init_task _ = False"

definition init_tasks :: "sys \<Rightarrow> task list" where
  "init_tasks s = filter is_init_task (tasks s)"

text \<open>\<open>open_settles s ev\<close>: the event settles the \<open>connect\<close> of an attempt to open the
  link, and how.\<close>

definition open_settles :: "sys \<Rightarrow> event \<Rightarrow> outcome option" where
  "open_settles s ev =
     (case ev of
        Settle i out \<Rightarrow>
          if i < length (tasks s)
          then (case tasks s ! i of AwaitConnect _ \<Rightarrow> Some out | _ \<Rightarrow> None)
          else None
      | _ \<Rightarrow> None)"

definition open_fails :: "sys \<Rightarrow> event \<Rightarrow> bool" where
  "open_fails s ev = (case open_settles s ev of Some (Rejected _) \<Rightarrow> True | _ \<Rightarrow> False)"

definition open_succeeds :: "sys \<Rightarrow> event \<Rightarrow> bool" where
  "open_succeeds s ev = (case open_settles s ev of Some (Resolved _) \<Rightarrow> True | _ \<Rightarrow> False)"

text \<open>The event is the callback of a scheduled reconnection (line 125).\<close>

definition retry_fires :: "sys \<Rightarrow> event \<Rightarrow> bool" where
  "retry_fires s ev =
     (case ev of
        Fire i \<Rightarrow> i < length (timeouts s) \<and> timeouts s ! i = Reconnect
      | _ \<Rightarrow> False)"

text \<open>Over a run from \<open>s\<close>: the number of failed opens, the number of reconnection
  callbacks run, and whether no open succeeded.\<close>

fun failed_opens :: "sys \<Rightarrow> event list \<Rightarrow> nat" where
  "failed_opens s [] = 0"
| "failed_opens s (ev # evs) = (if open_fails s ev then 1 else 0) + failed_opens (step ev s) evs"

fun retries_fired :: "sys \<Rightarrow> event list \<Rightarrow> nat" where
  "retries_fired s [] = 0"
| "retries_fired s (ev # evs) = (if retry_fires s ev then 1 else 0) + retries_fired (step ev s) evs"

fun no_open_succeeds :: "sys \<Rightarrow> event list \<Rightarrow> bool" where
  "no_open_succeeds s [] = True"
| "no_open_succeeds s (ev # evs) = (\<not> open_succeeds s ev \<and> no_open_succeeds (step ev s) evs)"

subsection \<open>Example inputs\<close>

definition post_get_cookie :: "json option \<Rightarrow> request" where
  "post_get_cookie parsed = \<lparr> req_method = ''POST'', req_pathname = ''/tools/get-cookie'',
     req_body = parsed, req_time = [] \<rparr>"

definition example_request :: request where
  "example_request = post_get_cookie (Some (JObj [(''url'', JStr ''http://example.com'')]))"

definition example_message :: mcp_message where
  "example_message = mcpMessage (JStr ''http://example.com'')"

definition example_call :: rpc where
  "example_call = CallTool ''chrome_get_cookie'' (JObj [(''url'', JStr ''http://example.com'')])"

text \<open>
  Pieces of runs. \<open>connects\<close>: the start-up timer fires and the \<open>connect\<close>
  resolves. \<open>first_open_fails\<close>: the start-up timer fires and the \<open>connect\<close> is
  rejected. \<open>retry_fails\<close>: a scheduled reconnection fires, the \<open>close\<close> of the
  stale client resolves and the \<open>connect\<close> is rejected. \<open>reconnects\<close>: the
  forwarded call is rejected with a connection error, the \<open>close\<close> of the client
  resolves and the \<open>connect\<close> of the new one resolves.
\<close>

definition connects :: "event list" where
  "connects = [Fire 0, Settle 0 (Resolved JNull)]"

definition first_open_fails :: "event list" where
  "first_open_fails = [Fire 0, Settle 0 (Rejected ''fetch failed'')]"

definition retry_fails :: "event list" where
  "retry_fails = [Fire 0, Settle 0 (Resolved JNull), Settle 0 (Rejected ''fetch failed'')]"

definition reconnects :: "event list" where
  "reconnects = [Settle 0 (Rejected ''Connection closed''), Settle 0 (Resolved JNull),
     Settle 0 (Resolved JNull)]"

text \<open>
  Two requests are forwarded on one connection, and both calls are rejected with a
  connection error, the second after the reconnection for the first has failed: each
  failed reconnection schedules a retry, so two retries are pending at once. The first
  chain of retries then runs until \<open>reconnectAttempts\<close> is 4 and schedules once more,
  the second retry fires, and the last retry of the first chain fires.
\<close>

definition overlapping_retries :: "event list" where
  "overlapping_retries =
     connects @ [Request 7 example_request, Request 8 example_request] @
     [Settle 0 (Rejected ''Connection closed''), Settle 1 (Resolved JNull),
      Settle 1 (Rejected ''fetch failed'')] @
     [Settle 0 (Rejected ''Connection closed''), Settle 0 (Resolved JNull),
      Settle 0 (Rejected ''fetch failed'')] @
     retry_fails @
     [Fire 1, Settle 0 (Resolved JNull), Settle 0 (Rejected ''fetch failed'')] @
     [Fire 1, Settle 0 (Resolved JNull), Settle 0 (Rejected ''fetch failed'')] @
     [Fire 1, Settle 0 (Resolved JNull), Settle 0 (Rejected ''fetch failed'')] @
     retry_fails @
     [Fire 0]"

subsection \<open>An invariant of the event loop\<close>

text \<open>
  \<open>init_ok\<close>: \<open>isInitializing\<close> is set exactly when one call of
  \<open>initializeMcpClient\<close> is suspended, and then the client it waits on is the one in
  \<open>mcpClient\<close>. \<open>clients_ok\<close>: the only client not yet closed is the one in
  \<open>mcpClient\<close>. \<open>timers_ok\<close>: the identities of the intervals are used ones.
\<close>

definition init_ok :: "sys \<Rightarrow> bool" where
  "init_ok s \<longleftrightarrow>
     (if isInitializing s
      then (\<exists>k. init_tasks s = [AwaitConnect k] \<and> mcpClient s \<noteq> None) \<or>
           (\<exists>h k. init_tasks s = [AwaitClose h k] \<and> mcpClient s = Some h)
      else init_tasks s = [])"

definition clients_ok :: "sys \<Rightarrow> bool" where
  "clients_ok s \<longleftrightarrow> clients s = (case mcpClient s of None \<Rightarrow> [] | Some h \<Rightarrow> [h])"

definition timers_ok :: "sys \<Rightarrow> bool" where
  "timers_ok s \<longleftrightarrow> (\<forall>t \<in> set (intervals s). t < nextTimer s)"

definition loop_inv :: "sys \<Rightarrow> bool" where
  "loop_inv s \<longleftrightarrow> init_ok s \<and> clients_ok s \<and> timers_ok s"

text \<open>
  \<open>failing_run n m s\<close>: what the states of a run look like while no open has
  succeeded, after \<open>n\<close> failed opens and \<open>m\<close> reconnection callbacks: waiting for
  the start-up timer, inside an attempt, waiting for a scheduled reconnection, or at
  rest with the attempts used up.
\<close>

definition failing_run :: "nat \<Rightarrow> nat \<Rightarrow> sys \<Rightarrow> bool" where
  "failing_run n m s \<longleftrightarrow>
     \<not> isConnected s \<and> intervals s = [] \<and> reconnectAttempts s = m \<and>
     m \<le> MAX_RECONNECT_ATTEMPTS \<and>
     ((n = 0 \<and> m = 0 \<and> tasks s = [] \<and> timeouts s = [Startup] \<and> \<not> isInitializing s) \<or>
      (n = m \<and> timeouts s = [] \<and> isInitializing s \<and>
         ((\<exists>h. tasks s = [AwaitClose h FireAndForget]) \<or> tasks s = [AwaitConnect FireAndForget])) \<or>
      (n = m + 1 \<and> m < MAX_RECONNECT_ATTEMPTS \<and> tasks s = [] \<and> timeouts s = [Reconnect] \<and>
         \<not> isInitializing s) \<or>
      (n = MAX_RECONNECT_ATTEMPTS + 1 \<and> m = MAX_RECONNECT_ATTEMPTS \<and> tasks s = [] \<and>
         timeouts s = [] \<and> \<not> isInitializing s))"

section \<open>Properties\<close>

subsection \<open>Unfolding the model, and some states of runs\<close>

lemmas model_defs = step_def handler_def get_cookie_def call_send_def sendToMcpServer_def
  send_return_def respond_def await_def drop_task_def drop_timeout_def clearInterval_def
  resume_def fire_def call_init_def initializeMcpClient_def init_connect_def
  init_after_close_def init_after_connect_def init_return_def setupConnectionMonitoring_def
  reconnect_timeout_def health_tick_def health_after_ping_def send_after_call_def
  connection_error_def MAX_RECONNECT_ATTEMPTS_def

lemmas example_defs = post_get_cookie_def example_request_def example_message_def
  example_call_def mcpMessage_def connects_def first_open_fails_def retry_fails_def
  reconnects_def

lemma step_get_cookie:
  "req_method req = ''POST'' \<Longrightarrow> req_pathname req = ''/tools/get-cookie'' \<Longrightarrow>
   step (Request rid req) s = get_cookie rid (req_body req) s"
  by (simp add: step_def handler_def)

lemma post_get_cookie_fields:
  "req_method (post_get_cookie b) = ''POST''"
  "req_pathname (post_get_cookie b) = ''/tools/get-cookie''"
  "req_body (post_get_cookie b) = b"
  by (simp_all add: post_get_cookie_def)

lemma trace_connecting:
  "run initial [Fire 0] =
     \<lparr> mcpClient = Some 0, isInitializing = True, isConnected = False,
       reconnectAttempts = 0, tasks = [AwaitConnect FireAndForget], timeouts = [],
       intervals = [], clients = [0], nextClient = 1, nextTimer = 0,
       calls = [(0, Connect)], responses = [] \<rparr>"
  by (simp add: initial_def model_defs)

lemma trace_connected:
  "run initial [Fire 0, Settle 0 (Resolved JNull)] =
     \<lparr> mcpClient = Some 0, isInitializing = False, isConnected = True,
       reconnectAttempts = 0, tasks = [], timeouts = [], intervals = [0],
       clients = [0], nextClient = 1, nextTimer = 1, calls = [(0, Connect)], responses = [] \<rparr>"
  by (simp add: initial_def model_defs)

lemma trace_forwarded:
  "run initial [Fire 0, Settle 0 (Resolved JNull), Request 7 example_request] =
     \<lparr> mcpClient = Some 0, isInitializing = False, isConnected = True,
       reconnectAttempts = 0,
       tasks = [AwaitCall example_message (HttpK 7 (JStr ''http://example.com'') example_message)],
       timeouts = [], intervals = [0],
       clients = [0], nextClient = 1, nextTimer = 1,
       calls = [(0, Connect), (0, example_call)], responses = [] \<rparr>"
  by (simp add: initial_def model_defs example_defs)

lemma trace_retrying:
  "run initial [Fire 0, Settle 0 (Rejected ''fetch failed''), Fire 0] =
     \<lparr> mcpClient = Some 0, isInitializing = True, isConnected = False,
       reconnectAttempts = 1, tasks = [AwaitClose 0 FireAndForget], timeouts = [],
       intervals = [], clients = [0], nextClient = 1, nextTimer = 0,
       calls = [(0, Connect), (0, Close)], responses = [] \<rparr>"
  by (simp add: initial_def model_defs)

subsection \<open>The invariant holds in every run\<close>

lemmas inv_defs = loop_inv_def init_ok_def clients_ok_def timers_ok_def init_tasks_def

lemma inv_initial: "loop_inv initial"
  by (simp add: inv_defs initial_def)

lemma inv_respond [simp]: "loop_inv (respond rid st b s) = loop_inv s"
  by (simp add: inv_defs respond_def)

lemma inv_await_other [simp]: "\<not> is_init_task t \<Longrightarrow> loop_inv (await h op t s) = loop_inv s"
  by (simp add: inv_defs await_def)

lemma inv_send_return [simp]: "loop_inv (send_return k out s) = loop_inv s"
  by (cases k; cases out) (simp_all add: send_return_def)

lemma inv_call_send [simp]: "loop_inv (call_send m k s) = loop_inv s"
  by (simp add: call_send_def sendToMcpServer_def split: option.splits)

lemma inv_clearInterval: "loop_inv s \<Longrightarrow> loop_inv (clearInterval t s)"
  by (auto simp add: inv_defs clearInterval_def)

lemma inv_isConnected_update [simp]: "loop_inv (s\<lparr> isConnected := b \<rparr>) = loop_inv s"
  by (simp add: inv_defs)

lemma inv_reconnectAttempts_update [simp]: "loop_inv (s\<lparr> reconnectAttempts := n \<rparr>) = loop_inv s"
  by (simp add: inv_defs)

lemma inv_timeouts_update [simp]: "loop_inv (s\<lparr> timeouts := ts \<rparr>) = loop_inv s"
  by (simp add: inv_defs)

lemma inv_init_return [simp]: "loop_inv (init_return k r s) = loop_inv s"
  by (cases k) (simp_all add: init_return_def)

lemma inv_initialize: "loop_inv s \<Longrightarrow> loop_inv (snd (initializeMcpClient k s))"
  by (auto simp add: inv_defs initializeMcpClient_def init_connect_def await_def Let_def
      split: option.splits)

lemma inv_call_init: "loop_inv s \<Longrightarrow> loop_inv (call_init k s)"
  using inv_initialize [of s k]
  by (auto simp add: call_init_def split: prod.splits option.splits)

lemma inv_handler: "loop_inv s \<Longrightarrow> loop_inv (handler rid req s)"
  by (simp add: handler_def get_cookie_def split: option.splits sum.splits)

lemma inv_health_tick: "loop_inv s \<Longrightarrow> loop_inv (health_tick t s)"
  by (simp add: health_tick_def inv_clearInterval split: option.splits)

lemma inv_fire: "loop_inv s \<Longrightarrow> loop_inv (fire t s)"
  by (cases t) (simp_all add: fire_def reconnect_timeout_def inv_call_init)

text \<open>Taking the \<open>i\<close>-th element out of a list, and what is left of a filter.\<close>

lemma filter_drop_nth_other:
  "i < length xs \<Longrightarrow> \<not> P (xs ! i) \<Longrightarrow> filter P (take i xs @ drop (Suc i) xs) = filter P xs"
proof -
  assume a: "i < length xs" "\<not> P (xs ! i)"
  have "filter P xs = filter P (take i xs @ xs ! i # drop (Suc i) xs)"
    using a(1) by (simp add: id_take_nth_drop [symmetric])
  with a(2) show ?thesis by simp
qed

lemma filter_drop_nth_single:
  assumes "i < length xs" and "P (xs ! i)" and "filter P xs = [x]"
  shows "xs ! i = x \<and> filter P (take i xs @ drop (Suc i) xs) = []"
proof -
  have "filter P xs = filter P (take i xs @ xs ! i # drop (Suc i) xs)"
    using assms(1) by (simp add: id_take_nth_drop [symmetric])
  with assms(2,3) have "filter P (take i xs) @ xs ! i # filter P (drop (Suc i) xs) = [x]"
    by simp
  then show ?thesis
    by (simp add: append_eq_Cons_conv)
qed

lemma filter_drop_nth_empty:
  assumes "i < length xs" and "filter P xs = []"
  shows "\<not> P (xs ! i)"
  using assms by (metis filter_empty_conv nth_mem)

lemma drop_task_fields [simp]:
  "mcpClient (drop_task i s) = mcpClient s"
  "isInitializing (drop_task i s) = isInitializing s"
  "isConnected (drop_task i s) = isConnected s"
  "reconnectAttempts (drop_task i s) = reconnectAttempts s"
  "timeouts (drop_task i s) = timeouts s"
  "intervals (drop_task i s) = intervals s"
  "clients (drop_task i s) = clients s"
  "nextClient (drop_task i s) = nextClient s"
  "nextTimer (drop_task i s) = nextTimer s"
  "calls (drop_task i s) = calls s"
  "responses (drop_task i s) = responses s"
  by (simp_all add: drop_task_def)

lemma init_tasks_drop_other:
  assumes "i < length (tasks s)" and "\<not> is_init_task (tasks s ! i)"
  shows "init_tasks (drop_task i s) = init_tasks s"
  using filter_drop_nth_other [of i "tasks s" is_init_task] assms
  by (simp add: init_tasks_def drop_task_def)

lemma inv_drop_other:
  assumes "loop_inv s" and "i < length (tasks s)" and "\<not> is_init_task (tasks s ! i)"
  shows "loop_inv (drop_task i s)"
proof -
  from assms(2,3) have "init_ok (drop_task i s) = init_ok s"
    by (simp add: init_ok_def init_tasks_drop_other)
  with assms(1) show ?thesis
    by (simp add: loop_inv_def clients_ok_def timers_ok_def)
qed

text \<open>A task of \<open>initializeMcpClient\<close> that is about to be resumed is the only one,
  and the guard is set.\<close>

lemma init_task_in_flight:
  assumes "loop_inv s" and "i < length (tasks s)" and "is_init_task (tasks s ! i)"
  shows "isInitializing s \<and> init_tasks s = [tasks s ! i] \<and> init_tasks (drop_task i s) = []"
proof -
  have g: "isInitializing s"
  proof (rule ccontr)
    assume "\<not> isInitializing s"
    with assms(1) have "filter is_init_task (tasks s) = []"
      by (simp add: inv_defs)
    with assms(2) have "\<not> is_init_task (tasks s ! i)"
      by (rule filter_drop_nth_empty)
    with assms(3) show False by simp
  qed
  with assms(1) obtain x where x: "filter is_init_task (tasks s) = [x]"
    by (auto simp add: inv_defs)
  from filter_drop_nth_single [OF assms(2) assms(3) x] g x show ?thesis
    by (simp add: init_tasks_def drop_task_def)
qed

lemma close_task_client:
  assumes "loop_inv s" and "i < length (tasks s)" and "tasks s ! i = AwaitClose h k"
  shows "mcpClient s = Some h \<and> clients s = [h]"
proof -
  from init_task_in_flight [OF assms(1,2)] assms(3)
  have "isInitializing s" "init_tasks s = [AwaitClose h k]"
    by simp_all
  with assms(1) show ?thesis
    by (auto simp add: loop_inv_def init_ok_def clients_ok_def)
qed

lemma connect_task_has_client:
  assumes "loop_inv s" and "i < length (tasks s)" and "tasks s ! i = AwaitConnect k"
  shows "mcpClient s \<noteq> None"
proof -
  from init_task_in_flight [OF assms(1,2)] assms(3)
  have "isInitializing s" "init_tasks s = [AwaitConnect k]"
    by simp_all
  with assms(1) show ?thesis
    by (auto simp add: loop_inv_def init_ok_def)
qed

lemma inv_after_close:
  assumes "loop_inv s" and "i < length (tasks s)" and "tasks s ! i = AwaitClose h k"
  shows "loop_inv (init_after_close h k out (drop_task i s))"
proof -
  from init_task_in_flight [OF assms(1,2)] assms(3)
  have a: "isInitializing s" "init_tasks (drop_task i s) = []"
    by simp_all
  from close_task_client [OF assms] have c: "mcpClient s = Some h" "clients s = [h]"
    by simp_all
  from assms(1) have t: "timers_ok s" by (simp add: loop_inv_def)
  from a c t show ?thesis
    by (simp add: inv_defs init_after_close_def init_connect_def await_def drop_task_def Let_def)
qed

lemma inv_after_connect:
  assumes "loop_inv s" and "i < length (tasks s)" and "tasks s ! i = AwaitConnect k"
  shows "loop_inv (snd (init_after_connect out (drop_task i s)))"
proof -
  from init_task_in_flight [OF assms(1,2)] assms(3)
  have a: "isInitializing s" "init_tasks s = [AwaitConnect k]" "init_tasks (drop_task i s) = []"
    by simp_all
  from assms(1) have t: "timers_ok s" "clients_ok s" by (simp_all add: loop_inv_def)
  from a t show ?thesis
    by (cases out)
       (auto simp add: inv_defs init_after_connect_def setupConnectionMonitoring_def
          drop_task_def Let_def)
qed

lemma inv_resume:
  assumes "loop_inv s" and "i < length (tasks s)"
  shows "loop_inv (resume (tasks s ! i) out (drop_task i s))"
proof (cases "tasks s ! i")
  case (AwaitClose h k)
  with inv_after_close [OF assms] show ?thesis
    by (simp add: resume_def)
next
  case (AwaitConnect k)
  with inv_after_connect [OF assms, of k out] show ?thesis
    by (simp add: resume_def case_prod_beta)
next
  case (AwaitPing t)
  with assms have d: "loop_inv (drop_task i s)"
    by (simp add: inv_drop_other)
  then have "loop_inv (call_init FireAndForget (clearInterval t (drop_task i s\<lparr> isConnected := False \<rparr>)))"
    by (simp add: inv_call_init inv_clearInterval)
  with AwaitPing d show ?thesis
    by (cases out) (simp_all add: resume_def health_after_ping_def)
next
  case (AwaitCall m k)
  with assms have d: "loop_inv (drop_task i s)"
    by (simp add: inv_drop_other)
  then have "loop_inv (call_init (RetrySend m e k) (drop_task i s\<lparr> isConnected := False \<rparr>))" for e
    by (simp add: inv_call_init)
  with AwaitCall d show ?thesis
    by (cases out) (simp_all add: resume_def send_after_call_def)
qed

lemma inv_step: "loop_inv s \<Longrightarrow> loop_inv (step ev s)"
  by (cases ev)
     (simp_all add: step_def inv_handler inv_health_tick inv_fire inv_resume drop_timeout_def)

lemma inv_run: "loop_inv s \<Longrightarrow> loop_inv (run s evs)"
  by (induction evs arbitrary: s) (simp_all add: inv_step)

lemma inv_reachable: "loop_inv (run initial evs)"
  by (rule inv_run [OF inv_initial])

subsection \<open>The guard of initializeMcpClient\<close>

text \<open>
  C4. A call of \<open>initializeMcpClient\<close> made while \<open>isInitializing\<close> is set returns
  \<open>false\<close> without suspending, and the state after it is the state before it:
  the variables, the suspended tasks, the pending timers and the calls made on the
  client are all as they were, so no open was started or queued.
\<close>

theorem initialize_while_initializing:
  assumes "isInitializing s"
  shows "initializeMcpClient k s = (Some False, s)"
  using assms by (simp add: initializeMcpClient_def)

theorem initialize_while_initializing_witness:
  "isInitializing (run initial [Fire 0]) \<and>
   initializeMcpClient FireAndForget (run initial [Fire 0]) = (Some False, run initial [Fire 0])"
proof -
  have g: "isInitializing (run initial [Fire 0])"
    by (simp add: trace_connecting del: run.simps)
  from initialize_while_initializing [OF g] g show ?thesis
    by (simp del: run.simps)
qed

lemma initialize_starts:
  assumes "\<not> isInitializing s" and "\<not> (isConnected s \<and> mcpClient s \<noteq> None)"
  shows "fst (initializeMcpClient k s) = None \<and> isInitializing (snd (initializeMcpClient k s))"
  using assms
  by (auto simp add: initializeMcpClient_def init_connect_def await_def Let_def
      split: option.splits)

lemma after_close_keeps_guard: "isInitializing (init_after_close h k out s) = isInitializing s"
  by (simp add: init_after_close_def init_connect_def await_def Let_def)

lemma after_connect_clears_guard: "\<not> isInitializing (snd (init_after_connect out s))"
  by (cases out)
     (simp_all add: init_after_connect_def setupConnectionMonitoring_def Let_def)

lemma init_return_keeps:
  "isConnected (init_return k r s) = isConnected s"
  "reconnectAttempts (init_return k r s) = reconnectAttempts s"
  "intervals (init_return k r s) = intervals s"
  "isInitializing (init_return k r s) = isInitializing s"
  by (cases k; simp add: init_return_def call_send_def sendToMcpServer_def send_return_def
        respond_def await_def split: option.splits send_k.splits outcome.splits)+

lemma settle_connect_clears_guard:
  assumes "i < length (tasks s)" and "tasks s ! i = AwaitConnect k"
  shows "\<not> isInitializing (step (Settle i out) s)"
  using assms after_connect_clears_guard [of out "drop_task i s"]
  by (simp add: step_def resume_def case_prod_beta init_return_keeps)

lemma guard_counts_attempts:
  "length (init_tasks (run initial evs)) = (if isInitializing (run initial evs) then 1 else 0)"
  using inv_reachable [of evs]
  by (auto simp add: loop_inv_def init_ok_def)

text \<open>
  C5. In every state a run from the start can reach, \<open>isInitializing\<close> is set exactly
  when one call of \<open>initializeMcpClient\<close> is suspended, and never more than one is.
  A call that finds the guard clear and the link not connected sets the guard and
  suspends. The guard stays as it is across the \<open>close\<close> of a stale client, whether
  that resolves or rejects, and it is false when the function returns after the
  \<open>connect\<close>, whether that resolved or threw, and so in the state after that event.
  (The two returns of lines 72 and 77 come before the guard is set and leave it as it
  is.)
\<close>

theorem guard_spans_attempt:
  "length (init_tasks (run initial evs)) = (if isInitializing (run initial evs) then 1 else 0)
   \<and> (\<not> isInitializing s \<and> \<not> (isConnected s \<and> mcpClient s \<noteq> None) \<longrightarrow>
        fst (initializeMcpClient k s) = None \<and> isInitializing (snd (initializeMcpClient k s)))
   \<and> isInitializing (init_after_close h k out s) = isInitializing s
   \<and> \<not> isInitializing (snd (init_after_connect out s))
   \<and> (i < length (tasks s) \<and> tasks s ! i = AwaitConnect k \<longrightarrow>
        \<not> isInitializing (step (Settle i out) s))"
  using guard_counts_attempts [of evs] initialize_starts [of s k]
    after_close_keeps_guard [of h k out s] after_connect_clears_guard [of out s]
    settle_connect_clears_guard [of i s k out]
  by blast

theorem guard_spans_attempt_witness:
  "length (init_tasks (run initial [Fire 0])) = 1
   \<and> isInitializing (run initial [Fire 0])
   \<and> fst (initializeMcpClient FireAndForget initial) = None
   \<and> isInitializing (snd (initializeMcpClient FireAndForget initial))
   \<and> \<not> isInitializing (step (Settle 0 (Rejected ''fetch failed'')) (run initial [Fire 0]))
   \<and> \<not> isInitializing (step (Settle 0 (Resolved JNull)) (run initial [Fire 0]))"
proof -
  have g: "isInitializing (run initial [Fire 0])"
    "0 < length (tasks (run initial [Fire 0]))"
    "tasks (run initial [Fire 0]) ! 0 = AwaitConnect FireAndForget"
    by (simp_all add: trace_connecting del: run.simps)
  have i: "\<not> isInitializing initial" "\<not> (isConnected initial \<and> mcpClient initial \<noteq> None)"
    by (simp_all add: initial_def)
  from guard_spans_attempt [of "[Fire 0]" initial FireAndForget 0 "Rejected ''fetch failed''" 0]
    guard_spans_attempt [of "[Fire 0]" "run initial [Fire 0]" FireAndForget 0 "Rejected ''fetch failed''" 0]
    guard_spans_attempt [of "[Fire 0]" "run initial [Fire 0]" FireAndForget 0 "Resolved JNull" 0]
    g i
  show ?thesis by (simp del: run.simps)
qed

subsection \<open>A successful open\<close>

lemma fresh_timer: "loop_inv s \<Longrightarrow> nextTimer s \<notin> set (intervals s)"
  by (auto simp add: loop_inv_def timers_ok_def)

lemma after_connect_resolved:
  assumes "mcpClient s \<noteq> None"
  shows "init_after_connect (Resolved v) s
           = (True, s\<lparr> isConnected := True, reconnectAttempts := 0,
                        intervals := intervals s @ [nextTimer s],
                        nextTimer := Suc (nextTimer s), isInitializing := False \<rparr>)"
  using assms by (simp add: init_after_connect_def setupConnectionMonitoring_def)

text \<open>
  C6. In a run from the start, when the \<open>connect\<close> of a suspended
  \<open>initializeMcpClient\<close> resolves, the function returns \<open>true\<close> with \<open>isConnected\<close>
  set, \<open>reconnectAttempts\<close> 0, the guard cleared and one new interval started, whose
  identity is not among the intervals already there; and this is still so in the state
  the event leaves behind, after the caller has gone on.
\<close>

theorem open_succeeds_connected:
  assumes "s = run initial evs" and "i < length (tasks s)" and "tasks s ! i = AwaitConnect k"
  shows "init_after_connect (Resolved v) (drop_task i s)
           = (True, (drop_task i s)\<lparr> isConnected := True, reconnectAttempts := 0,
                        intervals := intervals s @ [nextTimer s],
                        nextTimer := Suc (nextTimer s), isInitializing := False \<rparr>)
       \<and> nextTimer s \<notin> set (intervals s)
       \<and> isConnected (step (Settle i (Resolved v)) s)
       \<and> reconnectAttempts (step (Settle i (Resolved v)) s) = 0
       \<and> intervals (step (Settle i (Resolved v)) s) = intervals s @ [nextTimer s]
       \<and> \<not> isInitializing (step (Settle i (Resolved v)) s)"
proof -
  have inv: "loop_inv s"
    using assms(1) inv_reachable by simp
  from connect_task_has_client [OF inv assms(2,3)]
  have c: "mcpClient (drop_task i s) \<noteq> None"
    by simp
  have a: "init_after_connect (Resolved v) (drop_task i s)
           = (True, (drop_task i s)\<lparr> isConnected := True, reconnectAttempts := 0,
                        intervals := intervals s @ [nextTimer s],
                        nextTimer := Suc (nextTimer s), isInitializing := False \<rparr>)"
    using after_connect_resolved [OF c, of v] by simp
  have st: "step (Settle i (Resolved v)) s
      = init_return k True ((drop_task i s)\<lparr> isConnected := True, reconnectAttempts := 0,
                        intervals := intervals s @ [nextTimer s],
                        nextTimer := Suc (nextTimer s), isInitializing := False \<rparr>)"
    using assms(2,3) a by (simp add: step_def resume_def)
  from a fresh_timer [OF inv] show ?thesis
    by (simp add: st init_return_keeps)
qed

theorem open_succeeds_connected_witness:
  "init_after_connect (Resolved JNull) (drop_task 0 (run initial [Fire 0]))
     = (True, \<lparr> mcpClient = Some 0, isInitializing = False, isConnected = True,
         reconnectAttempts = 0, tasks = [], timeouts = [], intervals = [0],
         clients = [0], nextClient = 1, nextTimer = 1, calls = [(0, Connect)], responses = [] \<rparr>)
   \<and> isConnected (step (Settle 0 (Resolved JNull)) (run initial [Fire 0]))
   \<and> reconnectAttempts (step (Settle 0 (Resolved JNull)) (run initial [Fire 0])) = 0
   \<and> intervals (step (Settle 0 (Resolved JNull)) (run initial [Fire 0])) = [0]"
proof -
  have g: "0 < length (tasks (run initial [Fire 0]))"
    "tasks (run initial [Fire 0]) ! 0 = AwaitConnect FireAndForget"
    by (simp_all add: trace_connecting del: run.simps)
  have d: "drop_task 0 (run initial [Fire 0])
     = \<lparr> mcpClient = Some 0, isInitializing = True, isConnected = False,
         reconnectAttempts = 0, tasks = [], timeouts = [], intervals = [],
         clients = [0], nextClient = 1, nextTimer = 0, calls = [(0, Connect)], responses = [] \<rparr>"
    by (simp add: trace_connecting drop_task_def del: run.simps)
  have f: "intervals (run initial [Fire 0]) = []" "nextTimer (run initial [Fire 0]) = 0"
    by (simp_all add: trace_connecting del: run.simps)
  from open_succeeds_connected [OF refl g, of JNull]
  show ?thesis by (simp add: d f del: run.simps)
qed

subsection \<open>One client at a time\<close>

lemma clients_reachable:
  "clients (run initial evs) = (case mcpClient (run initial evs) of None \<Rightarrow> [] | Some h \<Rightarrow> [h])"
  using inv_reachable [of evs] by (simp add: loop_inv_def clients_ok_def)

lemma settle_close:
  assumes "loop_inv s" and "i < length (tasks s)" and "tasks s ! i = AwaitClose h k"
  shows "step (Settle i out) s
           = init_connect k ((drop_task i s)\<lparr> mcpClient := None, clients := [] \<rparr>)"
  using assms(2,3) close_task_client [OF assms]
  by (simp add: step_def resume_def init_after_close_def)

lemma initialize_closes_first:
  assumes "\<not> isInitializing s" and "\<not> isConnected s" and "mcpClient s = Some h"
  shows "initializeMcpClient k s
           = (None, s\<lparr> isInitializing := True, calls := calls s @ [(h, Close)],
                        tasks := tasks s @ [AwaitClose h k] \<rparr>)"
  using assms by (simp add: initializeMcpClient_def await_def)

lemma init_connect_eq:
  "init_connect k s
     = s\<lparr> mcpClient := Some (nextClient s), clients := clients s @ [nextClient s],
          nextClient := Suc (nextClient s), calls := calls s @ [(nextClient s, Connect)],
          tasks := tasks s @ [AwaitConnect k] \<rparr>"
  by (simp add: init_connect_def await_def Let_def)

text \<open>
  C9. In every state a run from the start can reach, the clients created and not yet
  closed are at most one, the one \<open>mcpClient\<close> holds. A call of
  \<open>initializeMcpClient\<close> that finds a stale client calls \<open>close\<close> on it and suspends,
  creating nothing. When that \<open>close\<close> settles, resolved or rejected alike (the
  outcome does not appear in the result), \<open>mcpClient\<close> is set to \<open>null\<close> and no client
  is left, and only then is the new client created and stored, and its \<open>connect\<close>
  called.
\<close>

theorem one_client_at_a_time:
  "clients (run initial evs) = (case mcpClient (run initial evs) of None \<Rightarrow> [] | Some h \<Rightarrow> [h])
   \<and> (\<not> isInitializing s' \<and> \<not> isConnected s' \<and> mcpClient s' = Some h' \<longrightarrow>
        initializeMcpClient k' s'
          = (None, s'\<lparr> isInitializing := True, calls := calls s' @ [(h', Close)],
                        tasks := tasks s' @ [AwaitClose h' k'] \<rparr>))
   \<and> (s = run initial evs \<and> i < length (tasks s) \<and> tasks s ! i = AwaitClose h k \<longrightarrow>
        mcpClient s = Some h \<and> clients s = [h] \<and>
        step (Settle i out) s
          = init_connect k ((drop_task i s)\<lparr> mcpClient := None, clients := [] \<rparr>))
   \<and> init_connect k t
        = t\<lparr> mcpClient := Some (nextClient t), clients := clients t @ [nextClient t],
             nextClient := Suc (nextClient t), calls := calls t @ [(nextClient t, Connect)],
             tasks := tasks t @ [AwaitConnect k] \<rparr>"
proof -
  have "loop_inv (run initial evs)"
    by (rule inv_reachable)
  then have "s = run initial evs \<and> i < length (tasks s) \<and> tasks s ! i = AwaitClose h k \<longrightarrow>
        mcpClient s = Some h \<and> clients s = [h] \<and>
        step (Settle i out) s
          = init_connect k ((drop_task i s)\<lparr> mcpClient := None, clients := [] \<rparr>)"
    using close_task_client [of s i h k] settle_close [of s i h k out] by blast
  with clients_reachable [of evs] initialize_closes_first [of s' h' k'] init_connect_eq [of k t]
  show ?thesis by blast
qed

theorem one_client_at_a_time_witness:
  "clients (run initial [Fire 0, Settle 0 (Rejected ''fetch failed''), Fire 0]) = [0]
   \<and> step (Settle 0 (Rejected ''already closed''))
        (run initial [Fire 0, Settle 0 (Rejected ''fetch failed''), Fire 0])
     = \<lparr> mcpClient = Some 1, isInitializing = True, isConnected = False,
         reconnectAttempts = 1, tasks = [AwaitConnect FireAndForget], timeouts = [],
         intervals = [], clients = [1], nextClient = 2, nextTimer = 0,
         calls = [(0, Connect), (0, Close), (1, Connect)], responses = [] \<rparr>"
proof -
  let ?evs = "[Fire 0, Settle 0 (Rejected ''fetch failed''), Fire 0]"
  have g: "0 < length (tasks (run initial ?evs))"
    "tasks (run initial ?evs) ! 0 = AwaitClose 0 FireAndForget"
    by (simp_all add: trace_retrying del: run.simps)
  from one_client_at_a_time [of ?evs initial 0 FireAndForget "run initial ?evs" 0 0 FireAndForget
      "Rejected ''already closed''"] g
  have "clients (run initial ?evs) = [0]"
    and "step (Settle 0 (Rejected ''already closed'')) (run initial ?evs)
          = init_connect FireAndForget ((drop_task 0 (run initial ?evs))\<lparr> mcpClient := None, clients := [] \<rparr>)"
    by simp_all
  then show ?thesis
    by (simp add: trace_retrying init_connect_def await_def drop_task_def del: run.simps)
qed

subsection \<open>Forwarding when the link is not ready\<close>

lemma respond_adds:
  "\<exists>st' b'. respond rid st b s = s\<lparr> responses := responses s @ [(rid, st', b')] \<rparr>"
  unfolding respond_def by (intro exI) (rule refl)

lemma get_cookie_link_down:
  assumes "mcpClient s = None \<or> \<not> isConnected s"
  shows "\<exists>st b. get_cookie rid parsed s = s\<lparr> responses := responses s @ [(rid, st, b)] \<rparr>"
proof -
  have n: "(mcpClient s = None \<or> \<not> isConnected s) = True"
    using assms by simp
  show ?thesis
    by (simp add: get_cookie_def n respond_adds split: option.splits sum.splits)
qed

lemma request_link_down:
  assumes "mcpClient s = None \<or> \<not> isConnected s"
  shows "\<exists>st b. step (Request rid req) s = s\<lparr> responses := responses s @ [(rid, st, b)] \<rparr>"
  using get_cookie_link_down [OF assms]
  by (simp add: step_def handler_def respond_adds)

text \<open>
  C7, as the claim states it, fails at the HTTP layer for a truthy url that cannot be
  converted to a string: line 264 prints the url inside the \<open>try\<close> before the link is
  tested, the conversion throws, and the \<open>catch\<close> of line 321 answers 400 with
  \<open>{error: 'Invalid JSON in request body'}\<close> although the link is down. Here the body is
  \<open>{"url": {"toString": 1}}\<close>.
\<close>

theorem link_down_unprintable_url_counterexample:
  "mcpClient initial = None
   \<and> truthy (Some (JObj [(''toString'', JNum 1)]))
   \<and> responses (step (Request 7 (post_get_cookie
         (Some (JObj [(''url'', JObj [(''toString'', JNum 1)])])))) initial)
     = [(7, 400, Some [(''error'', Str ''Invalid JSON in request body'')])]"
  by (simp add: step_get_cookie post_get_cookie_fields get_cookie_def respond_def initial_def)

text \<open>
  C7, amended. With no client or with \<open>isConnected\<close> false, \<open>sendToMcpServer\<close> throws
  its not-ready error without suspending and leaves the state as it was (nothing is
  sent on the link). The handler of \<open>POST /tools/get-cookie\<close> tests the same condition
  itself once the url has passed its checks, that is for a url that is truthy and that
  converts to a string: it writes a 503 and does nothing else. A truthy url whose
  conversion throws is answered 400 with \<open>{error: 'Invalid JSON in request body'}\<close>.
  Whatever the request, while the link is not ready the state after it differs from the
  state before it by one response only: nothing is sent, and nothing is left behind
  that would retry.
\<close>

theorem forward_not_ready:
  assumes "mcpClient s = None \<or> \<not> isConnected s"
  shows "sendToMcpServer message k s
           = (Some (Rejected ''MCP client not initialized or not connected''), s)
       \<and> (req_method req = ''POST'' \<and> req_pathname req = ''/tools/get-cookie'' \<and>
          req_body req = Some v \<and> destructure_url v = Inr (Some u) \<and> truthy (Some u) \<and>
          \<not> to_string_throws u \<longrightarrow>
          step (Request rid req) s
            = s\<lparr> responses := responses s @
                  [(rid, 503, Some [(''error'', Str ''MCP client not ready''),
                      (''message'', Str ''Please wait for MCP client initialization''),
                      (''status'', Obj [(''isConnected'', Bool (isConnected s)),
                         (''isInitializing'', Bool (isInitializing s)),
                         (''reconnectAttempts'', Num (reconnectAttempts s))])])] \<rparr>)
       \<and> (req_method req = ''POST'' \<and> req_pathname req = ''/tools/get-cookie'' \<and>
          req_body req = Some v \<and> destructure_url v = Inr (Some u) \<and> truthy (Some u) \<and>
          to_string_throws u \<longrightarrow>
          step (Request rid req) s
            = s\<lparr> responses := responses s @
                  [(rid, 400, Some [(''error'', Str ''Invalid JSON in request body'')])] \<rparr>)
       \<and> (\<exists>st b. step (Request rid req) s = s\<lparr> responses := responses s @ [(rid, st, b)] \<rparr>)"
proof -
  have a: "sendToMcpServer message k s
           = (Some (Rejected ''MCP client not initialized or not connected''), s)"
    using assms by (auto simp add: sendToMcpServer_def split: option.splits)
  have n: "(mcpClient s = None \<or> \<not> isConnected s) = True"
    using assms by simp
  have b: "req_method req = ''POST'' \<and> req_pathname req = ''/tools/get-cookie'' \<and>
          req_body req = Some v \<and> destructure_url v = Inr (Some u) \<and> truthy (Some u) \<and>
          \<not> to_string_throws u \<longrightarrow>
          step (Request rid req) s
            = s\<lparr> responses := responses s @
                  [(rid, 503, Some [(''error'', Str ''MCP client not ready''),
                      (''message'', Str ''Please wait for MCP client initialization''),
                      (''status'', Obj [(''isConnected'', Bool (isConnected s)),
                         (''isInitializing'', Bool (isInitializing s)),
                         (''reconnectAttempts'', Num (reconnectAttempts s))])])] \<rparr>"
    by (simp add: step_get_cookie get_cookie_def n respond_def connection_info_def)
  have c: "req_method req = ''POST'' \<and> req_pathname req = ''/tools/get-cookie'' \<and>
          req_body req = Some v \<and> destructure_url v = Inr (Some u) \<and> truthy (Some u) \<and>
          to_string_throws u \<longrightarrow>
          step (Request rid req) s
            = s\<lparr> responses := responses s @
                  [(rid, 400, Some [(''error'', Str ''Invalid JSON in request body'')])] \<rparr>"
    by (simp add: step_get_cookie get_cookie_def respond_def)
  from a b c request_link_down [OF assms, of rid req] show ?thesis
    by blast
qed

theorem forward_not_ready_witness:
  "sendToMcpServer example_message (HttpK 7 (JStr ''http://example.com'') example_message) initial
      = (Some (Rejected ''MCP client not initialized or not connected''), initial)
   \<and> step (Request 7 example_request) initial
      = initial\<lparr> responses :=
           [(7, 503, Some [(''error'', Str ''MCP client not ready''),
               (''message'', Str ''Please wait for MCP client initialization''),
               (''status'', Obj [(''isConnected'', Bool False),
                  (''isInitializing'', Bool False),
                  (''reconnectAttempts'', Num 0)])])] \<rparr>
   \<and> step (Request 7 (post_get_cookie
         (Some (JObj [(''url'', JArr [JStr ''a'', JObj [(''toString'', JNull)]])])))) initial
      = initial\<lparr> responses :=
           [(7, 400, Some [(''error'', Str ''Invalid JSON in request body'')])] \<rparr>"
proof -
  have n: "mcpClient initial = None \<or> \<not> isConnected initial"
    by (simp add: initial_def)
  have i: "isConnected initial = False" "isInitializing initial = False"
    "reconnectAttempts initial = 0" "responses initial = []"
    by (simp_all add: initial_def)
  have r: "req_method example_request = ''POST''"
    "req_pathname example_request = ''/tools/get-cookie''"
    "req_body example_request = Some (JObj [(''url'', JStr ''http://example.com'')])"
    by (simp_all add: example_request_def post_get_cookie_fields)
  have a: "sendToMcpServer example_message (HttpK 7 (JStr ''http://example.com'') example_message) initial
      = (Some (Rejected ''MCP client not initialized or not connected''), initial)
   \<and> step (Request 7 example_request) initial
      = initial\<lparr> responses :=
           [(7, 503, Some [(''error'', Str ''MCP client not ready''),
               (''message'', Str ''Please wait for MCP client initialization''),
               (''status'', Obj [(''isConnected'', Bool False),
                  (''isInitializing'', Bool False),
                  (''reconnectAttempts'', Num 0)])])] \<rparr>"
    using forward_not_ready [OF n, of example_message
      "HttpK 7 (JStr ''http://example.com'') example_message" example_request
      "JObj [(''url'', JStr ''http://example.com'')]" "JStr ''http://example.com''" 7]
    by (simp add: i r)
  have b: "step (Request 7 (post_get_cookie
         (Some (JObj [(''url'', JArr [JStr ''a'', JObj [(''toString'', JNull)]])])))) initial
      = initial\<lparr> responses :=
           [(7, 400, Some [(''error'', Str ''Invalid JSON in request body'')])] \<rparr>"
    using forward_not_ready [OF n, of example_message
      "HttpK 7 (JStr ''http://example.com'') example_message"
      "post_get_cookie (Some (JObj [(''url'', JArr [JStr ''a'', JObj [(''toString'', JNull)]])]))"
      "JObj [(''url'', JArr [JStr ''a'', JObj [(''toString'', JNull)]])]"
      "JArr [JStr ''a'', JObj [(''toString'', JNull)]]" 7]
    by (simp add: i post_get_cookie_fields)
  from a b show ?thesis by simp
qed

subsection \<open>The url of a get-cookie request\<close>





subsection \<open>The responses of POST /tools/get-cookie\<close>

lemma get_cookie_invalid_json:
  "get_cookie rid None s
     = s\<lparr> responses := responses s @
           [(rid, 400, Some [(''error'', Str ''Invalid JSON in request body'')])] \<rparr>"
  by (simp add: get_cookie_def respond_def)

lemma get_cookie_no_usable_url:
  assumes "\<forall>u. destructure_url v = Inr (Some u) \<longrightarrow> \<not> truthy (Some u) \<or> to_string_throws u"
  shows "\<exists>text. get_cookie rid (Some v) s
           = s\<lparr> responses := responses s @ [(rid, 400, Some [(''error'', Str text)])] \<rparr>"
proof (cases "destructure_url v")
  case (Inl e)
  then have "get_cookie rid (Some v) s
      = s\<lparr> responses := responses s @
           [(rid, 400, Some [(''error'', Str ''Invalid JSON in request body'')])] \<rparr>"
    by (simp add: get_cookie_def respond_def)
  then show ?thesis ..
next
  case (Inr uo)
  show ?thesis
  proof (cases "truthy uo")
    case False
    with Inr have "get_cookie rid (Some v) s
        = s\<lparr> responses := responses s @
             [(rid, 400, Some [(''error'', Str ''URL parameter is required'')])] \<rparr>"
      by (simp add: get_cookie_def respond_def)
    then show ?thesis ..
  next
    case True
    then obtain u where u: "uo = Some u"
      by (cases uo) simp_all
    with assms Inr True have "to_string_throws u"
      by simp
    with Inr True u have "get_cookie rid (Some v) s
        = s\<lparr> responses := responses s @
             [(rid, 400, Some [(''error'', Str ''Invalid JSON in request body'')])] \<rparr>"
      by (simp add: get_cookie_def respond_def)
    then show ?thesis ..
  qed
qed

lemma get_cookie_not_ready:
  assumes "destructure_url v = Inr (Some u)" and "truthy (Some u)" and "\<not> to_string_throws u"
    and "mcpClient s = None \<or> \<not> isConnected s"
  shows "\<exists>b. get_cookie rid (Some v) s = s\<lparr> responses := responses s @ [(rid, 503, b)] \<rparr>"
proof -
  have n: "(mcpClient s = None \<or> \<not> isConnected s) = True"
    using assms(4) by simp
  have "get_cookie rid (Some v) s
      = s\<lparr> responses := responses s @
           [(rid, 503, Some [(''error'', Str ''MCP client not ready''),
               (''message'', Str ''Please wait for MCP client initialization''),
               (''status'', Obj (connection_info s))])] \<rparr>"
    using assms(1-3) by (simp add: get_cookie_def n respond_def)
  then show ?thesis ..
qed

lemma get_cookie_forwards:
  assumes "destructure_url v = Inr (Some u)" and "truthy (Some u)" and "\<not> to_string_throws u"
    and "mcpClient s = Some h" and "isConnected s"
  shows "get_cookie rid (Some v) s
           = await h (CallTool ''chrome_get_cookie'' (JObj [(''url'', u)]))
               (AwaitCall (mcpMessage u) (HttpK rid u (mcpMessage u))) s"
  using assms
  by (simp add: get_cookie_def call_send_def sendToMcpServer_def mcpMessage_def)

text \<open>The event that settles a forwarded call.\<close>

lemma settle_call_resolved:
  assumes "i < length (tasks s)" and "tasks s ! i = AwaitCall m k"
  shows "step (Settle i (Resolved result)) s = send_return k (Resolved result) (drop_task i s)"
  using assms by (simp add: step_def resume_def send_after_call_def)

lemma settle_call_rejected:
  assumes "i < length (tasks s)" and "tasks s ! i = AwaitCall m k" and "\<not> connection_error e"
  shows "step (Settle i (Rejected e)) s
           = send_return k (Rejected (''MCP client error: '' @ e)) (drop_task i s)"
  using assms by (simp add: step_def resume_def send_after_call_def)

lemma settle_call_guarded:
  assumes "i < length (tasks s)" and "tasks s ! i = AwaitCall m k" and "connection_error e"
    and "isInitializing s"
  shows "step (Settle i (Rejected e)) s
           = send_return k (Rejected (''MCP client error: '' @ e))
               ((drop_task i s)\<lparr> isConnected := False \<rparr>)"
  using assms
  by (simp add: step_def resume_def send_after_call_def call_init_def initializeMcpClient_def
      init_return_def)

lemma settle_call_reconnects:
  assumes "i < length (tasks s)" and "tasks s ! i = AwaitCall m k" and "connection_error e"
    and "\<not> isInitializing s" and "mcpClient s = Some h"
  shows "step (Settle i (Rejected e)) s
           = await h Close (AwaitClose h (RetrySend m e k))
               ((drop_task i s)\<lparr> isConnected := False, isInitializing := True \<rparr>)"
  using assms
  by (simp add: step_def resume_def send_after_call_def call_init_def initializeMcpClient_def)

text \<open>The events of the reconnection that a forwarded call waits for.\<close>

lemma settle_retry_close:
  assumes "i < length (tasks s)" and "tasks s ! i = AwaitClose h (RetrySend m e k)"
  shows "step (Settle i out) s
           = init_connect (RetrySend m e k)
               ((drop_task i s)\<lparr> mcpClient := None, clients := removeAll h (clients s) \<rparr>)"
  using assms by (simp add: step_def resume_def init_after_close_def)

lemma settle_retry_connect_rejected:
  assumes "i < length (tasks s)" and "tasks s ! i = AwaitConnect (RetrySend m e k)"
  shows "step (Settle i (Rejected e')) s
           = send_return k (Rejected (''MCP client error: '' @ e))
               (if reconnectAttempts s < MAX_RECONNECT_ATTEMPTS
                then (drop_task i s)\<lparr> isConnected := False,
                       timeouts := timeouts s @ [Reconnect], isInitializing := False \<rparr>
                else (drop_task i s)\<lparr> isConnected := False, isInitializing := False \<rparr>)"
  using assms
  by (simp add: step_def resume_def init_after_connect_def init_return_def Let_def)

lemma settle_retry_connect_resolved:
  assumes "i < length (tasks s)" and "tasks s ! i = AwaitConnect (RetrySend (mcpMessage u) e k)"
    and "mcpClient s = Some h"
  shows "step (Settle i (Resolved r)) s
           = await h (CallTool ''chrome_get_cookie'' (JObj [(''url'', u)]))
               (AwaitCall (mcpMessage u) k)
               ((drop_task i s)\<lparr> isConnected := True, reconnectAttempts := 0,
                  intervals := intervals s @ [nextTimer s], nextTimer := Suc (nextTimer s),
                  isInitializing := False \<rparr>)"
  using assms
  by (simp add: step_def resume_def init_after_connect_def setupConnectionMonitoring_def
      init_return_def call_send_def sendToMcpServer_def mcpMessage_def)

lemma trace_reopening:
  "run initial [Fire 0, Settle 0 (Resolved JNull), Request 7 example_request,
       Settle 0 (Rejected ''Connection closed''), Settle 0 (Resolved JNull)] =
     \<lparr> mcpClient = Some 1, isInitializing = True, isConnected = False,
       reconnectAttempts = 0,
       tasks = [AwaitConnect (RetrySend example_message ''Connection closed''
                  (HttpK 7 (JStr ''http://example.com'') example_message))],
       timeouts = [], intervals = [0],
       clients = [1], nextClient = 2, nextTimer = 1,
       calls = [(0, Connect), (0, example_call), (0, Close), (1, Connect)],
       responses = [] \<rparr>"
  by (simp add: initial_def model_defs example_defs)

lemma trace_closing:
  "run initial [Fire 0, Settle 0 (Resolved JNull), Request 7 example_request,
       Settle 0 (Rejected ''Connection closed'')] =
     \<lparr> mcpClient = Some 0, isInitializing = True, isConnected = False,
       reconnectAttempts = 0,
       tasks = [AwaitClose 0 (RetrySend example_message ''Connection closed''
                  (HttpK 7 (JStr ''http://example.com'') example_message))],
       timeouts = [], intervals = [0],
       clients = [0], nextClient = 1, nextTimer = 1,
       calls = [(0, Connect), (0, example_call), (0, Close)],
       responses = [] \<rparr>"
  by (simp add: initial_def model_defs example_defs)

lemma trace_resent:
  "run initial [Fire 0, Settle 0 (Resolved JNull), Request 7 example_request,
       Settle 0 (Rejected ''Connection closed''), Settle 0 (Resolved JNull),
       Settle 0 (Resolved JNull)] =
     \<lparr> mcpClient = Some 1, isInitializing = False, isConnected = True,
       reconnectAttempts = 0,
       tasks = [AwaitCall example_message (HttpK 7 (JStr ''http://example.com'') example_message)],
       timeouts = [], intervals = [0, 1],
       clients = [1], nextClient = 2, nextTimer = 2,
       calls = [(0, Connect), (0, example_call), (0, Close), (1, Connect), (1, example_call)],
       responses = [] \<rparr>"
  by (simp add: initial_def model_defs example_defs)

lemma trace_health_reopening:
  "run initial [Fire 0, Settle 0 (Resolved JNull), Tick 0,
       Request 7 example_request, Settle 0 (Rejected ''ping failed'')] =
     \<lparr> mcpClient = Some 0, isInitializing = True, isConnected = False,
       reconnectAttempts = 0,
       tasks = [AwaitCall example_message (HttpK 7 (JStr ''http://example.com'') example_message),
                AwaitClose 0 FireAndForget],
       timeouts = [], intervals = [],
       clients = [0], nextClient = 1, nextTimer = 1,
       calls = [(0, Connect), (0, HealthPing), (0, example_call), (0, Close)],
       responses = [] \<rparr>"
  by (simp add: initial_def model_defs example_defs)

text \<open>
  C8, as the claim states it, fails in two places. A backend call that fails does not
  always end in 500: here the \<open>callTool\<close> of request 7 is rejected with
  \<open>Connection closed\<close>, the link is reopened, the call is sent again and resolves, and
  the response is 200. And a request with a url on a connected link does not always
  reach the backend: the url \<open>[{"toString": null}]\<close> is truthy, line 264 cannot print
  it, and request 8 is answered 400 with nothing sent.
\<close>

theorem get_cookie_responses_counterexample:
  "calls (run initial (connects @ [Request 7 example_request] @ reconnects @
            [Settle 0 (Resolved (JStr ''sid=1''))]))
     = [(0, Connect), (0, example_call), (0, Close), (1, Connect), (1, example_call)]
   \<and> responses (run initial (connects @ [Request 7 example_request] @ reconnects @
            [Settle 0 (Resolved (JStr ''sid=1''))]))
     = [(7, 200, Some [(''success'', Bool True),
           (''message'', Interp ''Cookies retrieved from '' (JStr ''http://example.com'')),
           (''response'', Val (JStr ''sid=1'')),
           (''request'', Msg example_message)])]
   \<and> mcpClient (run initial connects) = Some 0
   \<and> isConnected (run initial connects)
   \<and> truthy (Some (JArr [JObj [(''toString'', JNull)]]))
   \<and> calls (run initial (connects @ [Request 8 (post_get_cookie
         (Some (JObj [(''url'', JArr [JObj [(''toString'', JNull)]])])))]))
     = [(0, Connect)]
   \<and> responses (run initial (connects @ [Request 8 (post_get_cookie
         (Some (JObj [(''url'', JArr [JObj [(''toString'', JNull)]])])))]))
     = [(8, 400, Some [(''error'', Str ''Invalid JSON in request body'')])]"
  by (simp add: initial_def model_defs example_defs)

text \<open>
  C8, amended. For a \<open>POST /tools/get-cookie\<close>:
  \<^item> a body that is not JSON gets 400, and so does a body that gives no usable url
    (\<open>null\<close>, a value without \<open>url\<close>, a falsy \<open>url\<close>, or a truthy one whose
    conversion to a string throws); the state changes by that response only;
  \<^item> with a usable url and the link not ready the response is 503;
  \<^item> with a usable url and the link ready the handler sends one \<open>callTool\<close> of
    \<open>chrome_get_cookie\<close> and waits for \<open>sendToMcpServer\<close>;
  \<^item> when that call resolves, \<open>sendToMcpServer\<close> returns its value; when it is
    rejected with an error that is not a connection error, or with a connection error
    while another \<open>initializeMcpClient\<close> is under way, \<open>sendToMcpServer\<close> throws
    \<open>MCP client error:\<close> and the message;
  \<^item> when it is rejected with a connection error otherwise, the client is closed and a
    new one connected, whatever the \<open>close\<close> gives; if the \<open>connect\<close> is rejected,
    \<open>sendToMcpServer\<close> throws \<open>MCP client error:\<close> and the message of the call's
    own failure; if it resolves, the same \<open>callTool\<close> is sent on the new client and
    awaited as the first was;
  \<^item> whenever \<open>sendToMcpServer\<close> returns a value the response is 200 with the keys
    \<open>success\<close>, \<open>message\<close>, \<open>response\<close>, \<open>request\<close>, the value itself under
    \<open>response\<close>; whenever it throws the response is 500 with the keys \<open>error\<close>,
    \<open>details\<close>, \<open>suggestion\<close>, the thrown message under \<open>details\<close>.
\<close>

theorem get_cookie_responses:
  assumes "req_method req = ''POST''" and "req_pathname req = ''/tools/get-cookie''"
    and "k = HttpK rid u (mcpMessage u)"
  shows
    "(req_body req = None \<longrightarrow>
        step (Request rid req) s
          = s\<lparr> responses := responses s @
                [(rid, 400, Some [(''error'', Str ''Invalid JSON in request body'')])] \<rparr>)
   \<and> (req_body req = Some v \<and>
        (\<forall>w. destructure_url v = Inr (Some w) \<longrightarrow> \<not> truthy (Some w) \<or> to_string_throws w) \<longrightarrow>
        (\<exists>text. step (Request rid req) s
           = s\<lparr> responses := responses s @ [(rid, 400, Some [(''error'', Str text)])] \<rparr>))
   \<and> (req_body req = Some v \<and> destructure_url v = Inr (Some u) \<and> truthy (Some u) \<and>
        \<not> to_string_throws u \<and> (mcpClient s = None \<or> \<not> isConnected s) \<longrightarrow>
        (\<exists>b. step (Request rid req) s = s\<lparr> responses := responses s @ [(rid, 503, b)] \<rparr>))
   \<and> (req_body req = Some v \<and> destructure_url v = Inr (Some u) \<and> truthy (Some u) \<and>
        \<not> to_string_throws u \<and> mcpClient s = Some h \<and> isConnected s \<longrightarrow>
        step (Request rid req) s
          = await h (CallTool ''chrome_get_cookie'' (JObj [(''url'', u)]))
              (AwaitCall (mcpMessage u) k) s)
   \<and> (i < length (tasks s') \<and> tasks s' ! i = AwaitCall (mcpMessage u) k \<longrightarrow>
        step (Settle i (Resolved result)) s'
          = send_return k (Resolved result) (drop_task i s'))
   \<and> (i < length (tasks s') \<and> tasks s' ! i = AwaitCall (mcpMessage u) k \<and>
        \<not> connection_error e \<longrightarrow>
        step (Settle i (Rejected e)) s'
          = send_return k (Rejected (''MCP client error: '' @ e)) (drop_task i s'))
   \<and> (i < length (tasks s') \<and> tasks s' ! i = AwaitCall (mcpMessage u) k \<and>
        connection_error e \<and> isInitializing s' \<longrightarrow>
        step (Settle i (Rejected e)) s'
          = send_return k (Rejected (''MCP client error: '' @ e))
              ((drop_task i s')\<lparr> isConnected := False \<rparr>))
   \<and> (i < length (tasks s') \<and> tasks s' ! i = AwaitCall (mcpMessage u) k \<and>
        connection_error e \<and> \<not> isInitializing s' \<and> mcpClient s' = Some h' \<longrightarrow>
        step (Settle i (Rejected e)) s'
          = await h' Close (AwaitClose h' (RetrySend (mcpMessage u) e k))
              ((drop_task i s')\<lparr> isConnected := False, isInitializing := True \<rparr>))
   \<and> (i < length (tasks s') \<and> tasks s' ! i = AwaitClose h' (RetrySend (mcpMessage u) e k) \<longrightarrow>
        step (Settle i out) s'
          = init_connect (RetrySend (mcpMessage u) e k)
              ((drop_task i s')\<lparr> mcpClient := None, clients := removeAll h' (clients s') \<rparr>))
   \<and> (i < length (tasks s') \<and> tasks s' ! i = AwaitConnect (RetrySend (mcpMessage u) e k) \<longrightarrow>
        step (Settle i (Rejected e')) s'
          = send_return k (Rejected (''MCP client error: '' @ e))
              (if reconnectAttempts s' < MAX_RECONNECT_ATTEMPTS
               then (drop_task i s')\<lparr> isConnected := False,
                      timeouts := timeouts s' @ [Reconnect], isInitializing := False \<rparr>
               else (drop_task i s')\<lparr> isConnected := False, isInitializing := False \<rparr>))
   \<and> (i < length (tasks s') \<and> tasks s' ! i = AwaitConnect (RetrySend (mcpMessage u) e k) \<and>
        mcpClient s' = Some h' \<longrightarrow>
        step (Settle i (Resolved result)) s'
          = await h' (CallTool ''chrome_get_cookie'' (JObj [(''url'', u)]))
              (AwaitCall (mcpMessage u) k)
              ((drop_task i s')\<lparr> isConnected := True, reconnectAttempts := 0,
                 intervals := intervals s' @ [nextTimer s'], nextTimer := Suc (nextTimer s'),
                 isInitializing := False \<rparr>))
   \<and> send_return k (Resolved result) t
        = t\<lparr> responses := responses t @
              [(rid, 200, Some [(''success'', Bool True),
                  (''message'', Interp ''Cookies retrieved from '' u),
                  (''response'', Val result),
                  (''request'', Msg (mcpMessage u))])] \<rparr>
   \<and> send_return k (Rejected e) t
        = t\<lparr> responses := responses t @
              [(rid, 500, Some [(''error'', Str ''Failed to communicate with MCP server''),
                  (''details'', Str e),
                  (''suggestion'', Str ''Make sure the MCP server is running at http://127.0.0.1:12306/mcp'')])] \<rparr>"
proof -
  have g: "step (Request rid req) s = get_cookie rid (req_body req) s"
    using assms(1,2) by (rule step_get_cookie)
  have c1: "req_body req = None \<longrightarrow>
        step (Request rid req) s
          = s\<lparr> responses := responses s @
                [(rid, 400, Some [(''error'', Str ''Invalid JSON in request body'')])] \<rparr>"
    by (simp add: g get_cookie_invalid_json)
  have c2: "req_body req = Some v \<and>
        (\<forall>w. destructure_url v = Inr (Some w) \<longrightarrow> \<not> truthy (Some w) \<or> to_string_throws w) \<longrightarrow>
        (\<exists>text. step (Request rid req) s
           = s\<lparr> responses := responses s @ [(rid, 400, Some [(''error'', Str text)])] \<rparr>)"
    using get_cookie_no_usable_url [of v rid s] by (simp add: g)
  have c3: "req_body req = Some v \<and> destructure_url v = Inr (Some u) \<and> truthy (Some u) \<and>
        \<not> to_string_throws u \<and> (mcpClient s = None \<or> \<not> isConnected s) \<longrightarrow>
        (\<exists>b. step (Request rid req) s = s\<lparr> responses := responses s @ [(rid, 503, b)] \<rparr>)"
    using get_cookie_not_ready [of v u s rid] by (simp add: g)
  have c4: "req_body req = Some v \<and> destructure_url v = Inr (Some u) \<and> truthy (Some u) \<and>
        \<not> to_string_throws u \<and> mcpClient s = Some h \<and> isConnected s \<longrightarrow>
        step (Request rid req) s
          = await h (CallTool ''chrome_get_cookie'' (JObj [(''url'', u)]))
              (AwaitCall (mcpMessage u) k) s"
    using get_cookie_forwards [of v u s h rid] by (simp add: g assms(3))
  have c5: "i < length (tasks s') \<and> tasks s' ! i = AwaitCall (mcpMessage u) k \<longrightarrow>
        step (Settle i (Resolved result)) s'
          = send_return k (Resolved result) (drop_task i s')"
    by (simp add: settle_call_resolved)
  have c6: "i < length (tasks s') \<and> tasks s' ! i = AwaitCall (mcpMessage u) k \<and>
        \<not> connection_error e \<longrightarrow>
        step (Settle i (Rejected e)) s'
          = send_return k (Rejected (''MCP client error: '' @ e)) (drop_task i s')"
    by (simp add: settle_call_rejected)
  have c7: "i < length (tasks s') \<and> tasks s' ! i = AwaitCall (mcpMessage u) k \<and>
        connection_error e \<and> isInitializing s' \<longrightarrow>
        step (Settle i (Rejected e)) s'
          = send_return k (Rejected (''MCP client error: '' @ e))
              ((drop_task i s')\<lparr> isConnected := False \<rparr>)"
    by (simp add: settle_call_guarded)
  have c8: "i < length (tasks s') \<and> tasks s' ! i = AwaitCall (mcpMessage u) k \<and>
        connection_error e \<and> \<not> isInitializing s' \<and> mcpClient s' = Some h' \<longrightarrow>
        step (Settle i (Rejected e)) s'
          = await h' Close (AwaitClose h' (RetrySend (mcpMessage u) e k))
              ((drop_task i s')\<lparr> isConnected := False, isInitializing := True \<rparr>)"
    by (simp add: settle_call_reconnects)
  have c9: "i < length (tasks s') \<and> tasks s' ! i = AwaitClose h' (RetrySend (mcpMessage u) e k) \<longrightarrow>
        step (Settle i out) s'
          = init_connect (RetrySend (mcpMessage u) e k)
              ((drop_task i s')\<lparr> mcpClient := None, clients := removeAll h' (clients s') \<rparr>)"
    by (simp add: settle_retry_close)
  have c10: "i < length (tasks s') \<and> tasks s' ! i = AwaitConnect (RetrySend (mcpMessage u) e k) \<longrightarrow>
        step (Settle i (Rejected e')) s'
          = send_return k (Rejected (''MCP client error: '' @ e))
              (if reconnectAttempts s' < MAX_RECONNECT_ATTEMPTS
               then (drop_task i s')\<lparr> isConnected := False,
                      timeouts := timeouts s' @ [Reconnect], isInitializing := False \<rparr>
               else (drop_task i s')\<lparr> isConnected := False, isInitializing := False \<rparr>)"
    using settle_retry_connect_rejected [of i s' "mcpMessage u" e k e'] by simp
  have c11: "i < length (tasks s') \<and> tasks s' ! i = AwaitConnect (RetrySend (mcpMessage u) e k) \<and>
        mcpClient s' = Some h' \<longrightarrow>
        step (Settle i (Resolved result)) s'
          = await h' (CallTool ''chrome_get_cookie'' (JObj [(''url'', u)]))
              (AwaitCall (mcpMessage u) k)
              ((drop_task i s')\<lparr> isConnected := True, reconnectAttempts := 0,
                 intervals := intervals s' @ [nextTimer s'], nextTimer := Suc (nextTimer s'),
                 isInitializing := False \<rparr>)"
    using settle_retry_connect_resolved [of i s' u e k h' result] by simp
  have c12: "send_return k (Resolved result) t
        = t\<lparr> responses := responses t @
              [(rid, 200, Some [(''success'', Bool True),
                  (''message'', Interp ''Cookies retrieved from '' u),
                  (''response'', Val result),
                  (''request'', Msg (mcpMessage u))])] \<rparr>"
    by (simp add: assms(3) send_return_def respond_def)
  have c13: "send_return k (Rejected e) t
        = t\<lparr> responses := responses t @
              [(rid, 500, Some [(''error'', Str ''Failed to communicate with MCP server''),
                  (''details'', Str e),
                  (''suggestion'', Str ''Make sure the MCP server is running at http://127.0.0.1:12306/mcp'')])] \<rparr>"
    by (simp add: assms(3) send_return_def respond_def MCP_SERVER_URL_def)
  show ?thesis
    by (intro conjI) (rule c1 c2 c3 c4 c5 c6 c7 c8 c9 c10 c11 c12 c13)+
qed

theorem get_cookie_responses_witness:
  "responses (step (Request 2 (post_get_cookie None)) initial)
     = [(2, 400, Some [(''error'', Str ''Invalid JSON in request body'')])]
   \<and> (\<exists>text. step (Request 3 (post_get_cookie (Some (JObj [(''url'', JStr '''')])))) initial
         = initial\<lparr> responses := [(3, 400, Some [(''error'', Str text)])] \<rparr>)
   \<and> (\<exists>b. step (Request 7 example_request) initial
         = initial\<lparr> responses := [(7, 503, b)] \<rparr>)
   \<and> step (Request 7 example_request) (run initial [Fire 0, Settle 0 (Resolved JNull)])
     = run initial [Fire 0, Settle 0 (Resolved JNull)]
         \<lparr> calls := [(0, Connect), (0, example_call)],
           tasks := [AwaitCall example_message (HttpK 7 (JStr ''http://example.com'') example_message)] \<rparr>
   \<and> responses (step (Settle 0 (Resolved (JStr ''sid=1'')))
        (run initial [Fire 0, Settle 0 (Resolved JNull), Request 7 example_request]))
     = [(7, 200, Some [(''success'', Bool True),
           (''message'', Interp ''Cookies retrieved from '' (JStr ''http://example.com'')),
           (''response'', Val (JStr ''sid=1'')),
           (''request'', Msg example_message)])]
   \<and> responses (step (Settle 0 (Rejected ''Request timed out''))
        (run initial [Fire 0, Settle 0 (Resolved JNull), Request 7 example_request]))
     = [(7, 500, Some [(''error'', Str ''Failed to communicate with MCP server''),
           (''details'', Str ''MCP client error: Request timed out''),
           (''suggestion'', Str ''Make sure the MCP server is running at http://127.0.0.1:12306/mcp'')])]
   \<and> responses (step (Settle 0 (Rejected ''Connection closed''))
        (run initial [Fire 0, Settle 0 (Resolved JNull), Tick 0,
           Request 7 example_request, Settle 0 (Rejected ''ping failed'')]))
     = [(7, 500, Some [(''error'', Str ''Failed to communicate with MCP server''),
           (''details'', Str ''MCP client error: Connection closed''),
           (''suggestion'', Str ''Make sure the MCP server is running at http://127.0.0.1:12306/mcp'')])]
   \<and> step (Settle 0 (Rejected ''Connection closed''))
        (run initial [Fire 0, Settle 0 (Resolved JNull), Request 7 example_request])
     = run initial [Fire 0, Settle 0 (Resolved JNull), Request 7 example_request]
         \<lparr> isInitializing := True, isConnected := False,
           tasks := [AwaitClose 0 (RetrySend example_message ''Connection closed''
                       (HttpK 7 (JStr ''http://example.com'') example_message))],
           calls := [(0, Connect), (0, example_call), (0, Close)] \<rparr>
   \<and> step (Settle 0 (Rejected ''close failed''))
        (run initial [Fire 0, Settle 0 (Resolved JNull), Request 7 example_request,
           Settle 0 (Rejected ''Connection closed'')])
     = run initial [Fire 0, Settle 0 (Resolved JNull), Request 7 example_request,
           Settle 0 (Rejected ''Connection closed'')]
         \<lparr> mcpClient := Some 1, clients := [1], nextClient := 2,
           tasks := [AwaitConnect (RetrySend example_message ''Connection closed''
                       (HttpK 7 (JStr ''http://example.com'') example_message))],
           calls := [(0, Connect), (0, example_call), (0, Close), (1, Connect)] \<rparr>
   \<and> step (Settle 0 (Rejected ''fetch failed''))
        (run initial [Fire 0, Settle 0 (Resolved JNull), Request 7 example_request,
           Settle 0 (Rejected ''Connection closed''), Settle 0 (Resolved JNull)])
     = run initial [Fire 0, Settle 0 (Resolved JNull), Request 7 example_request,
           Settle 0 (Rejected ''Connection closed''), Settle 0 (Resolved JNull)]
         \<lparr> isInitializing := False, tasks := [], timeouts := [Reconnect],
           responses := [(7, 500, Some [(''error'', Str ''Failed to communicate with MCP server''),
             (''details'', Str ''MCP client error: Connection closed''),
             (''suggestion'', Str ''Make sure the MCP server is running at http://127.0.0.1:12306/mcp'')])] \<rparr>
   \<and> step (Settle 0 (Resolved JNull))
        (run initial [Fire 0, Settle 0 (Resolved JNull), Request 7 example_request,
           Settle 0 (Rejected ''Connection closed''), Settle 0 (Resolved JNull)])
     = run initial [Fire 0, Settle 0 (Resolved JNull), Request 7 example_request,
           Settle 0 (Rejected ''Connection closed''), Settle 0 (Resolved JNull)]
         \<lparr> isInitializing := False, isConnected := True, intervals := [0, 1], nextTimer := 2,
           tasks := [AwaitCall example_message (HttpK 7 (JStr ''http://example.com'') example_message)],
           calls := [(0, Connect), (0, example_call), (0, Close), (1, Connect), (1, example_call)] \<rparr>
   \<and> responses (step (Settle 0 (Resolved (JStr ''sid=1'')))
        (run initial [Fire 0, Settle 0 (Resolved JNull), Request 7 example_request,
           Settle 0 (Rejected ''Connection closed''), Settle 0 (Resolved JNull),
           Settle 0 (Resolved JNull)]))
     = [(7, 200, Some [(''success'', Bool True),
           (''message'', Interp ''Cookies retrieved from '' (JStr ''http://example.com'')),
           (''response'', Val (JStr ''sid=1'')),
           (''request'', Msg example_message)])]"
proof -
  note p = post_get_cookie_fields
  note x = example_message_def example_call_def
  have r: "req_method example_request = ''POST''"
    "req_pathname example_request = ''/tools/get-cookie''"
    "req_body example_request = Some (JObj [(''url'', JStr ''http://example.com'')])"
    by (simp_all add: example_request_def p)
  have e: "\<not> connection_error ''Request timed out''" "connection_error ''Connection closed''"
    by (simp_all add: connection_error_def)
  have m: "MAX_RECONNECT_ATTEMPTS = 5"
    by (simp add: MAX_RECONNECT_ATTEMPTS_def)
  have n: "mcpClient initial = None" "responses initial = []"
    by (simp_all add: initial_def)
  have c1: "responses (step (Request 2 (post_get_cookie None)) initial)
     = [(2, 400, Some [(''error'', Str ''Invalid JSON in request body'')])]"
    using get_cookie_responses [OF p(1) [of None] p(2) [of None] refl,
        where rid = 2 and s = initial and s' = initial]
    by (simp add: p n)
  have c2: "\<exists>text. step (Request 3 (post_get_cookie (Some (JObj [(''url'', JStr '''')])))) initial
         = initial\<lparr> responses := [(3, 400, Some [(''error'', Str text)])] \<rparr>"
    using get_cookie_responses [OF p(1) [of "Some (JObj [(''url'', JStr '''')])"]
          p(2) [of "Some (JObj [(''url'', JStr '''')])"] refl,
        where rid = 3 and v = "JObj [(''url'', JStr '''')]" and s = initial and s' = initial]
    by (simp add: p n)
  have c3: "\<exists>b. step (Request 7 example_request) initial
         = initial\<lparr> responses := [(7, 503, b)] \<rparr>"
    using get_cookie_responses [OF r(1) r(2) refl,
        where rid = 7 and u = "JStr ''http://example.com''"
          and v = "JObj [(''url'', JStr ''http://example.com'')]"
          and s = initial and s' = initial]
    by (simp add: r n)
  have c4: "step (Request 7 example_request) (run initial [Fire 0, Settle 0 (Resolved JNull)])
     = run initial [Fire 0, Settle 0 (Resolved JNull)]
         \<lparr> calls := [(0, Connect), (0, example_call)],
           tasks := [AwaitCall example_message (HttpK 7 (JStr ''http://example.com'') example_message)] \<rparr>"
    using get_cookie_responses [OF r(1) r(2) refl,
        where rid = 7 and u = "JStr ''http://example.com''"
          and v = "JObj [(''url'', JStr ''http://example.com'')]"
          and s = "run initial [Fire 0, Settle 0 (Resolved JNull)]" and h = 0 and s' = initial]
    by (simp add: r trace_connected x await_def del: run.simps)
  have c5: "responses (step (Settle 0 (Resolved (JStr ''sid=1'')))
        (run initial [Fire 0, Settle 0 (Resolved JNull), Request 7 example_request]))
     = [(7, 200, Some [(''success'', Bool True),
           (''message'', Interp ''Cookies retrieved from '' (JStr ''http://example.com'')),
           (''response'', Val (JStr ''sid=1'')),
           (''request'', Msg example_message)])]"
    using get_cookie_responses [OF r(1) r(2) refl,
        where rid = 7 and u = "JStr ''http://example.com''" and s = initial and i = 0
          and s' = "run initial [Fire 0, Settle 0 (Resolved JNull), Request 7 example_request]"
          and result = "JStr ''sid=1''"
          and t = "drop_task 0
            (run initial [Fire 0, Settle 0 (Resolved JNull), Request 7 example_request])"]
    by (simp add: trace_forwarded x drop_task_def del: run.simps)
  have c6: "responses (step (Settle 0 (Rejected ''Request timed out''))
        (run initial [Fire 0, Settle 0 (Resolved JNull), Request 7 example_request]))
     = [(7, 500, Some [(''error'', Str ''Failed to communicate with MCP server''),
           (''details'', Str ''MCP client error: Request timed out''),
           (''suggestion'', Str ''Make sure the MCP server is running at http://127.0.0.1:12306/mcp'')])]"
    using e(1) get_cookie_responses [OF r(1) r(2) refl,
        where rid = 7 and u = "JStr ''http://example.com''" and s = initial and i = 0
          and s' = "run initial [Fire 0, Settle 0 (Resolved JNull), Request 7 example_request]"
          and e = "''Request timed out''"]
      get_cookie_responses [OF r(1) r(2) refl,
        where rid = 7 and u = "JStr ''http://example.com''" and s = initial and s' = initial
          and e = "''MCP client error: Request timed out''"
          and t = "drop_task 0
            (run initial [Fire 0, Settle 0 (Resolved JNull), Request 7 example_request])"]
    by (simp add: trace_forwarded x drop_task_def del: run.simps)
  have c7: "responses (step (Settle 0 (Rejected ''Connection closed''))
        (run initial [Fire 0, Settle 0 (Resolved JNull), Tick 0,
           Request 7 example_request, Settle 0 (Rejected ''ping failed'')]))
     = [(7, 500, Some [(''error'', Str ''Failed to communicate with MCP server''),
           (''details'', Str ''MCP client error: Connection closed''),
           (''suggestion'', Str ''Make sure the MCP server is running at http://127.0.0.1:12306/mcp'')])]"
    using e(2) get_cookie_responses [OF r(1) r(2) refl,
        where rid = 7 and u = "JStr ''http://example.com''" and s = initial and i = 0
          and s' = "run initial [Fire 0, Settle 0 (Resolved JNull), Tick 0,
             Request 7 example_request, Settle 0 (Rejected ''ping failed'')]"
          and e = "''Connection closed''"]
      get_cookie_responses [OF r(1) r(2) refl,
        where rid = 7 and u = "JStr ''http://example.com''" and s = initial and s' = initial
          and e = "''MCP client error: Connection closed''"
          and t = "(drop_task 0
            (run initial [Fire 0, Settle 0 (Resolved JNull), Tick 0,
               Request 7 example_request, Settle 0 (Rejected ''ping failed'')]))\<lparr> isConnected := False \<rparr>"]
    by (simp add: trace_health_reopening x drop_task_def del: run.simps)
  have c8: "step (Settle 0 (Rejected ''Connection closed''))
        (run initial [Fire 0, Settle 0 (Resolved JNull), Request 7 example_request])
     = run initial [Fire 0, Settle 0 (Resolved JNull), Request 7 example_request]
         \<lparr> isInitializing := True, isConnected := False,
           tasks := [AwaitClose 0 (RetrySend example_message ''Connection closed''
                       (HttpK 7 (JStr ''http://example.com'') example_message))],
           calls := [(0, Connect), (0, example_call), (0, Close)] \<rparr>"
    using e(2) get_cookie_responses [OF r(1) r(2) refl,
        where rid = 7 and u = "JStr ''http://example.com''" and s = initial and i = 0
          and s' = "run initial [Fire 0, Settle 0 (Resolved JNull), Request 7 example_request]"
          and e = "''Connection closed''" and h' = 0]
    by (simp add: trace_forwarded x drop_task_def await_def del: run.simps)
  have c9: "step (Settle 0 (Rejected ''close failed''))
        (run initial [Fire 0, Settle 0 (Resolved JNull), Request 7 example_request,
           Settle 0 (Rejected ''Connection closed'')])
     = run initial [Fire 0, Settle 0 (Resolved JNull), Request 7 example_request,
           Settle 0 (Rejected ''Connection closed'')]
         \<lparr> mcpClient := Some 1, clients := [1], nextClient := 2,
           tasks := [AwaitConnect (RetrySend example_message ''Connection closed''
                       (HttpK 7 (JStr ''http://example.com'') example_message))],
           calls := [(0, Connect), (0, example_call), (0, Close), (1, Connect)] \<rparr>"
    using get_cookie_responses [OF r(1) r(2) refl,
        where rid = 7 and u = "JStr ''http://example.com''" and s = initial and i = 0
          and s' = "run initial [Fire 0, Settle 0 (Resolved JNull), Request 7 example_request,
             Settle 0 (Rejected ''Connection closed'')]"
          and e = "''Connection closed''" and h' = 0 and out = "Rejected ''close failed''"]
    by (simp add: trace_closing x drop_task_def init_connect_def await_def del: run.simps)
  have c10: "step (Settle 0 (Rejected ''fetch failed''))
        (run initial [Fire 0, Settle 0 (Resolved JNull), Request 7 example_request,
           Settle 0 (Rejected ''Connection closed''), Settle 0 (Resolved JNull)])
     = run initial [Fire 0, Settle 0 (Resolved JNull), Request 7 example_request,
           Settle 0 (Rejected ''Connection closed''), Settle 0 (Resolved JNull)]
         \<lparr> isInitializing := False, tasks := [], timeouts := [Reconnect],
           responses := [(7, 500, Some [(''error'', Str ''Failed to communicate with MCP server''),
             (''details'', Str ''MCP client error: Connection closed''),
             (''suggestion'', Str ''Make sure the MCP server is running at http://127.0.0.1:12306/mcp'')])] \<rparr>"
    using get_cookie_responses [OF r(1) r(2) refl,
        where rid = 7 and u = "JStr ''http://example.com''" and s = initial and i = 0
          and s' = "run initial [Fire 0, Settle 0 (Resolved JNull), Request 7 example_request,
             Settle 0 (Rejected ''Connection closed''), Settle 0 (Resolved JNull)]"
          and e = "''Connection closed''" and e' = "''fetch failed''"]
      get_cookie_responses [OF r(1) r(2) refl,
        where rid = 7 and u = "JStr ''http://example.com''" and s = initial and s' = initial
          and e = "''MCP client error: Connection closed''"
          and t = "(drop_task 0
            (run initial [Fire 0, Settle 0 (Resolved JNull), Request 7 example_request,
               Settle 0 (Rejected ''Connection closed''), Settle 0 (Resolved JNull)]))
             \<lparr> isConnected := False, timeouts := [Reconnect], isInitializing := False \<rparr>"]
    by (simp add: trace_reopening x m drop_task_def del: run.simps)
  have c11: "step (Settle 0 (Resolved JNull))
        (run initial [Fire 0, Settle 0 (Resolved JNull), Request 7 example_request,
           Settle 0 (Rejected ''Connection closed''), Settle 0 (Resolved JNull)])
     = run initial [Fire 0, Settle 0 (Resolved JNull), Request 7 example_request,
           Settle 0 (Rejected ''Connection closed''), Settle 0 (Resolved JNull)]
         \<lparr> isInitializing := False, isConnected := True, intervals := [0, 1], nextTimer := 2,
           tasks := [AwaitCall example_message (HttpK 7 (JStr ''http://example.com'') example_message)],
           calls := [(0, Connect), (0, example_call), (0, Close), (1, Connect), (1, example_call)] \<rparr>"
    using get_cookie_responses [OF r(1) r(2) refl,
        where rid = 7 and u = "JStr ''http://example.com''" and s = initial and i = 0
          and s' = "run initial [Fire 0, Settle 0 (Resolved JNull), Request 7 example_request,
             Settle 0 (Rejected ''Connection closed''), Settle 0 (Resolved JNull)]"
          and e = "''Connection closed''" and h' = 1 and result = JNull]
    by (simp add: trace_reopening x drop_task_def await_def del: run.simps)
  have c12: "responses (step (Settle 0 (Resolved (JStr ''sid=1'')))
        (run initial [Fire 0, Settle 0 (Resolved JNull), Request 7 example_request,
           Settle 0 (Rejected ''Connection closed''), Settle 0 (Resolved JNull),
           Settle 0 (Resolved JNull)]))
     = [(7, 200, Some [(''success'', Bool True),
           (''message'', Interp ''Cookies retrieved from '' (JStr ''http://example.com'')),
           (''response'', Val (JStr ''sid=1'')),
           (''request'', Msg example_message)])]"
    using get_cookie_responses [OF r(1) r(2) refl,
        where rid = 7 and u = "JStr ''http://example.com''" and s = initial and i = 0
          and s' = "run initial [Fire 0, Settle 0 (Resolved JNull), Request 7 example_request,
             Settle 0 (Rejected ''Connection closed''), Settle 0 (Resolved JNull),
             Settle 0 (Resolved JNull)]"
          and result = "JStr ''sid=1''"
          and t = "drop_task 0
            (run initial [Fire 0, Settle 0 (Resolved JNull), Request 7 example_request,
               Settle 0 (Rejected ''Connection closed''), Settle 0 (Resolved JNull),
               Settle 0 (Resolved JNull)])"]
    by (simp add: trace_resent x drop_task_def del: run.simps)
  show ?thesis
    by (intro conjI) (rule c1 c2 c3 c4 c5 c6 c7 c8 c9 c10 c11 c12)+
qed

subsection \<open>Runs in which no open succeeds\<close>

lemma failing_run_initial: "failing_run 0 0 initial"
  by (simp add: failing_run_def initial_def)

lemma failing_run_responses [simp]:
  "failing_run n m (s\<lparr> responses := r \<rparr>) = failing_run n m s"
  by (simp add: failing_run_def)

lemma respond_changes_responses: "\<exists>r. respond rid st b s = s\<lparr> responses := r \<rparr>"
  unfolding respond_def by (rule exI) (rule refl)

lemma get_cookie_disconnected:
  assumes "\<not> isConnected s"
  shows "\<exists>r. get_cookie rid parsed s = s\<lparr> responses := r \<rparr>"
  using assms
  by (simp add: get_cookie_def respond_changes_responses split: option.splits sum.splits)

lemma handler_disconnected:
  assumes "\<not> isConnected s"
  shows "\<exists>r. handler rid req s = s\<lparr> responses := r \<rparr>"
  using assms
  by (simp add: handler_def respond_changes_responses get_cookie_disconnected)

lemma failing_run_request:
  assumes "failing_run n m s"
  shows "failing_run n m (step (Request rid req) s)"
proof -
  from assms have "\<not> isConnected s"
    by (simp add: failing_run_def)
  from handler_disconnected [OF this, of rid req] obtain r
    where "handler rid req s = s\<lparr> responses := r \<rparr>" ..
  with assms show ?thesis
    by (simp add: step_def)
qed

lemma failing_run_tick:
  assumes "failing_run n m s"
  shows "step (Tick t) s = s"
  using assms by (simp add: failing_run_def step_def)

text \<open>With the guard clear and the link down, a call from a timer starts an attempt.\<close>

lemma call_init_disconnected:
  assumes "\<not> isInitializing s" and "\<not> isConnected s"
  shows "\<exists>t. tasks (call_init FireAndForget s) = tasks s @ [t] \<and>
           (t = AwaitConnect FireAndForget \<or> (\<exists>h. t = AwaitClose h FireAndForget)) \<and>
           isInitializing (call_init FireAndForget s) \<and>
           \<not> isConnected (call_init FireAndForget s) \<and>
           intervals (call_init FireAndForget s) = intervals s \<and>
           timeouts (call_init FireAndForget s) = timeouts s \<and>
           reconnectAttempts (call_init FireAndForget s) = reconnectAttempts s"
  using assms
  by (cases "mcpClient s")
     (simp_all add: call_init_def initializeMcpClient_def init_connect_def await_def Let_def)

lemma failing_run_attempt:
  assumes "\<not> isInitializing s" and "\<not> isConnected s" and "intervals s = []"
    and "timeouts s = []" and "tasks s = []" and "reconnectAttempts s = m"
    and "m \<le> MAX_RECONNECT_ATTEMPTS"
  shows "failing_run m m (call_init FireAndForget s)"
proof -
  from call_init_disconnected [OF assms(1,2)] obtain t where
    t: "tasks (call_init FireAndForget s) = tasks s @ [t]"
      "t = AwaitConnect FireAndForget \<or> (\<exists>h. t = AwaitClose h FireAndForget)"
      "isInitializing (call_init FireAndForget s)"
      "\<not> isConnected (call_init FireAndForget s)"
      "intervals (call_init FireAndForget s) = intervals s"
      "timeouts (call_init FireAndForget s) = timeouts s"
      "reconnectAttempts (call_init FireAndForget s) = reconnectAttempts s"
    by blast
  with assms(3-7) show ?thesis
    by (auto simp add: failing_run_def)
qed

lemma failing_run_fire:
  assumes "failing_run n m s"
  shows "failing_run n (m + (if retry_fires s (Fire i) then 1 else 0)) (step (Fire i) s)"
proof (cases "i < length (timeouts s)")
  case False
  with assms show ?thesis
    by (simp add: step_def retry_fires_def)
next
  case True
  from assms have b: "\<not> isConnected s" "intervals s = []" "reconnectAttempts s = m"
    "m \<le> MAX_RECONNECT_ATTEMPTS"
    by (simp_all add: failing_run_def)
  from assms True consider
      (startup) "n = 0" "m = 0" "tasks s = []" "timeouts s = [Startup]" "\<not> isInitializing s"
    | (retry) "n = m + 1" "m < MAX_RECONNECT_ATTEMPTS" "tasks s = []" "timeouts s = [Reconnect]"
        "\<not> isInitializing s"
    by (auto simp add: failing_run_def)
  then show ?thesis
  proof cases
    case startup
    with True have i: "i = 0" by simp
    have "failing_run m m (call_init FireAndForget (drop_timeout 0 s))"
      using startup b by (intro failing_run_attempt) (simp_all add: drop_timeout_def)
    with startup i show ?thesis
      by (simp add: step_def retry_fires_def fire_def)
  next
    case retry
    with True have i: "i = 0" by simp
    have "failing_run (m + 1) (m + 1)
        (call_init FireAndForget (drop_timeout 0 s\<lparr> reconnectAttempts := reconnectAttempts (drop_timeout 0 s) + 1 \<rparr>))"
      using retry b by (intro failing_run_attempt) (simp_all add: drop_timeout_def)
    with retry i show ?thesis
      by (simp add: step_def retry_fires_def fire_def reconnect_timeout_def)
  qed
qed

lemma failing_run_settle:
  assumes "failing_run n m s" and "\<not> open_succeeds s (Settle i out)"
  shows "failing_run (n + (if open_fails s (Settle i out) then 1 else 0)) m (step (Settle i out) s)"
proof (cases "i < length (tasks s)")
  case False
  with assms show ?thesis
    by (simp add: step_def open_fails_def open_settles_def)
next
  case True
  from assms have b: "\<not> isConnected s" "intervals s = []" "reconnectAttempts s = m"
    "m \<le> MAX_RECONNECT_ATTEMPTS"
    by (simp_all add: failing_run_def)
  from assms True consider
      (closing) h where "n = m" "timeouts s = []" "isInitializing s"
        "tasks s = [AwaitClose h FireAndForget]"
    | (connecting) "n = m" "timeouts s = []" "isInitializing s"
        "tasks s = [AwaitConnect FireAndForget]"
    by (auto simp add: failing_run_def)
  then show ?thesis
  proof cases
    case closing
    with True have i: "i = 0" by simp
    from closing b i show ?thesis
      by (simp add: failing_run_def step_def open_fails_def open_settles_def resume_def
          drop_task_def init_after_close_def init_connect_def await_def Let_def)
  next
    case connecting
    with True have i: "i = 0" by simp
    from assms(2) connecting i obtain e where e: "out = Rejected e"
      by (cases out) (simp_all add: open_succeeds_def open_settles_def)
    from connecting b i e show ?thesis
      by (cases "m < MAX_RECONNECT_ATTEMPTS")
         (simp_all add: failing_run_def step_def open_fails_def open_settles_def resume_def
          drop_task_def init_after_connect_def init_return_def Let_def)
  qed
qed

lemma failing_run_step:
  assumes "failing_run n m s" and "\<not> open_succeeds s ev"
  shows "failing_run (n + (if open_fails s ev then 1 else 0))
           (m + (if retry_fires s ev then 1 else 0)) (step ev s)"
proof (cases ev)
  case (Request rid req)
  with failing_run_request [OF assms(1), of rid req] show ?thesis
    by (simp add: open_fails_def open_settles_def retry_fires_def)
next
  case (Tick t)
  with failing_run_tick [OF assms(1), of t] assms(1) show ?thesis
    by (simp add: open_fails_def open_settles_def retry_fires_def)
next
  case (Fire i)
  with failing_run_fire [OF assms(1), of i] show ?thesis
    by (simp add: open_fails_def open_settles_def)
next
  case (Settle i out)
  with failing_run_settle [OF assms(1), of i out] assms(2) show ?thesis
    by (simp add: retry_fires_def)
qed

lemma failing_run_run:
  assumes "failing_run n m s" and "no_open_succeeds s evs"
  shows "failing_run (n + failed_opens s evs) (m + retries_fired s evs) (run s evs)"
  using assms
proof (induction evs arbitrary: s n m)
  case Nil
  then show ?case by simp
next
  case (Cons ev evs)
  from Cons.prems have a: "\<not> open_succeeds s ev" and b: "no_open_succeeds (step ev s) evs"
    by simp_all
  from Cons.IH [OF failing_run_step [OF Cons.prems(1) a] b] show ?case
    by (simp add: add.assoc)
qed

text \<open>
  C2, as the claim states it, fails by one: the first open is not a reconnection. After
  five failed opens in a row from the start \<open>reconnectAttempts\<close> is 4, which is below
  the maximum, so the fifth reconnection is scheduled.
\<close>

theorem retry_after_five_failed_opens_counterexample:
  "failed_opens initial
     (first_open_fails @ retry_fails @ retry_fails @ retry_fails @ retry_fails) = 5
   \<and> timeouts (run initial
     (first_open_fails @ retry_fails @ retry_fails @ retry_fails @ retry_fails)) = [Reconnect]
   \<and> reconnectAttempts (run initial
     (first_open_fails @ retry_fails @ retry_fails @ retry_fails @ retry_fails)) = 4"
  by (simp add: initial_def model_defs example_defs open_fails_def open_settles_def)

text \<open>
  C2, amended. In every run from the start in which no open succeeds: the link is never
  connected; \<open>reconnectAttempts\<close> is the number of reconnection callbacks that have
  run (each adds one just before its open) and is at most \<open>MAX_RECONNECT_ATTEMPTS\<close>;
  at most \<open>MAX_RECONNECT_ATTEMPTS + 1\<close> opens fail, the first one and one per
  reconnection; once that many have failed no timeout is pending and nothing is
  suspended, so no further open follows; and before that a timeout is pending or an
  attempt is under way.
\<close>

theorem reconnection_is_bounded:
  assumes "no_open_succeeds initial evs"
  shows "\<not> isConnected (run initial evs)
       \<and> reconnectAttempts (run initial evs) = retries_fired initial evs
       \<and> reconnectAttempts (run initial evs) \<le> MAX_RECONNECT_ATTEMPTS
       \<and> failed_opens initial evs \<le> MAX_RECONNECT_ATTEMPTS + 1
       \<and> (failed_opens initial evs = MAX_RECONNECT_ATTEMPTS + 1 \<longrightarrow>
            timeouts (run initial evs) = [] \<and> tasks (run initial evs) = [])
       \<and> (failed_opens initial evs < MAX_RECONNECT_ATTEMPTS + 1 \<longrightarrow>
            timeouts (run initial evs) \<noteq> [] \<or> tasks (run initial evs) \<noteq> [])"
proof -
  from failing_run_run [OF failing_run_initial assms]
  have "failing_run (failed_opens initial evs) (retries_fired initial evs) (run initial evs)"
    by simp
  then show ?thesis
    by (auto simp add: failing_run_def)
qed

theorem reconnection_is_bounded_witness:
  "no_open_succeeds initial
     (first_open_fails @ retry_fails @ retry_fails @ retry_fails @ retry_fails @ retry_fails)
   \<and> failed_opens initial
     (first_open_fails @ retry_fails @ retry_fails @ retry_fails @ retry_fails @ retry_fails) = 6
   \<and> reconnectAttempts (run initial
     (first_open_fails @ retry_fails @ retry_fails @ retry_fails @ retry_fails @ retry_fails)) = 5
   \<and> timeouts (run initial
     (first_open_fails @ retry_fails @ retry_fails @ retry_fails @ retry_fails @ retry_fails)) = []
   \<and> tasks (run initial
     (first_open_fails @ retry_fails @ retry_fails @ retry_fails @ retry_fails @ retry_fails)) = []"
proof -
  let ?evs = "first_open_fails @ retry_fails @ retry_fails @ retry_fails @ retry_fails @ retry_fails"
  have n: "no_open_succeeds initial ?evs"
    by (simp add: initial_def model_defs example_defs open_succeeds_def open_settles_def)
  have f: "failed_opens initial ?evs = 6"
    by (simp add: initial_def model_defs example_defs open_fails_def open_settles_def)
  have r: "retries_fired initial ?evs = 5"
    by (simp add: initial_def model_defs example_defs retry_fires_def)
  from reconnection_is_bounded [OF n] f r
  have "reconnectAttempts (run initial ?evs) = 5"
    and "timeouts (run initial ?evs) = [] \<and> tasks (run initial ?evs) = []"
    by (simp_all add: MAX_RECONNECT_ATTEMPTS_def del: run.simps)
  with n f show ?thesis by blast
qed

text \<open>
  The bound is one of runs without a successful open. Once a connection has been up,
  two forwarded calls that fail one after the other each leave a scheduled retry
  behind, and with two retries pending the counter passes the maximum.
\<close>

lemma overlapping_retries_pass_maximum:
  "reconnectAttempts (run initial overlapping_retries) = 6"
  by (simp add: overlapping_retries_def initial_def model_defs example_defs)

subsection \<open>A connection error of a forwarded call\<close>

text \<open>
  What the catch block of \<open>sendToMcpServer\<close> does with a connection error: it sets
  \<open>isConnected\<close> to false and calls \<open>initializeMcpClient\<close>, which closes the client
  and connects a new one; when that has returned with the link up, the message is sent
  again by a new call of \<open>sendToMcpServer\<close>; with the link down, the first error is
  thrown with the prefix. The intervals are not touched on the way.
\<close>

lemma connection_error_reconnects:
  assumes "connection_error e" and "\<not> isInitializing s" and "mcpClient s = Some h"
  shows "send_after_call m k (Rejected e) s
           = s\<lparr> isConnected := False, isInitializing := True,
                calls := calls s @ [(h, Close)],
                tasks := tasks s @ [AwaitClose h (RetrySend m e k)] \<rparr>"
  using assms
  by (simp add: send_after_call_def call_init_def initializeMcpClient_def await_def)

lemma retry_after_reconnect:
  assumes "isConnected s" and "mcpClient s = Some h" and "msg_method m = ''tools/call''"
  shows "init_return (RetrySend m e k) r s
           = s\<lparr> calls := calls s @ [(h, CallTool (tool_name (params m)) (arguments (params m)))],
                tasks := tasks s @ [AwaitCall m k] \<rparr>"
  using assms
  by (simp add: init_return_def call_send_def sendToMcpServer_def await_def)

lemma no_retry_when_link_down:
  assumes "\<not> isConnected s"
  shows "init_return (RetrySend m e k) r s = send_return k (Rejected (''MCP client error: '' @ e)) s"
  using assms by (simp add: init_return_def)

lemma other_error_is_thrown:
  assumes "\<not> connection_error e"
  shows "send_after_call m k (Rejected e) s = send_return k (Rejected (''MCP client error: '' @ e)) s"
  using assms by (simp add: send_after_call_def)

text \<open>
  C1. The failing input: a forwarded call is rejected with \<open>Connection closed\<close>, the
  reconnection succeeds, the retry is rejected with \<open>Connection closed\<close> again, and the
  second reconnection succeeds too. The retry is a call of \<open>sendToMcpServer\<close> itself,
  so its failure is handled like the first: the one request has by then caused two
  reconnections and three \<open>callTool\<close>s, the third still awaited, and no response yet.
\<close>

theorem retry_is_retried:
  "calls (run initial (connects @ [Request 7 example_request] @ reconnects @ reconnects))
     = [(0, Connect), (0, example_call),
        (0, Close), (1, Connect), (1, example_call),
        (1, Close), (2, Connect), (2, example_call)]
   \<and> tasks (run initial (connects @ [Request 7 example_request] @ reconnects @ reconnects))
     = [AwaitCall example_message (HttpK 7 (JStr ''http://example.com'') example_message)]
   \<and> responses (run initial (connects @ [Request 7 example_request] @ reconnects @ reconnects))
     = []"
  by (simp add: initial_def model_defs example_defs)

subsection \<open>The health intervals\<close>

text \<open>
  Where an interval is cleared: in its own callback only. A tick that finds the link
  down clears its interval, and a failed ping sets \<open>isConnected\<close> to false and clears
  the interval before \<open>initializeMcpClient\<close> is called.
\<close>

lemma health_tick_link_down:
  assumes "mcpClient s = None \<or> \<not> isConnected s"
  shows "health_tick t s = s\<lparr> intervals := removeAll t (intervals s) \<rparr>"
  using assms by (auto simp add: health_tick_def clearInterval_def split: option.splits)

lemma health_failure_clears_interval:
  "health_after_ping t (Rejected e) s
     = call_init FireAndForget (s\<lparr> isConnected := False, intervals := removeAll t (intervals s) \<rparr>)"
  by (simp add: health_after_ping_def clearInterval_def)

text \<open>
  C3. The failing input: the link is connected, with interval 0 running; a forwarded
  call is rejected with \<open>Connection closed\<close>; the client is closed and a new one
  connects. In the state after the rejection \<open>isConnected\<close> is false and interval 0 is
  still active; when the new connection is up, \<open>setupConnectionMonitoring\<close> has started
  interval 1 beside it.
\<close>

theorem two_health_timers:
  "\<not> isConnected (run initial (connects @ [Request 7 example_request,
        Settle 0 (Rejected ''Connection closed'')]))
   \<and> intervals (run initial (connects @ [Request 7 example_request,
        Settle 0 (Rejected ''Connection closed'')])) = [0]
   \<and> isConnected (run initial (connects @ [Request 7 example_request] @ reconnects))
   \<and> intervals (run initial (connects @ [Request 7 example_request] @ reconnects)) = [0, 1]"
  by (simp add: initial_def model_defs example_defs)

end
